theory Spec2Isabelle
  imports Main "HOL-Library.Sublist"
begin

section \<open>Python values, exceptions and dictionaries\<close>

text \<open>
  The module \<^verbatim>\<open>tensorflow_tts/processor/base_processorv2.py\<close> defines one dataclass,
  \<^verbatim>\<open>ExamplePrepro\<close>. Its methods are embedded below as functions that take the
  instance and return the instance they leave behind, or the exception they raise.
  A result is \<open>error + 'a\<close>, with \<open>Inl\<close> for the exception. The state of an instance
  after a method has raised is not modelled.

  Strings are lists of \<open>char\<close>, one \<open>char\<close> per code point; the model covers text
  whose code points are below 256.
\<close>

datatype error =
    DataProcessorError
  | KeyError
  | IndexError
  | ValueError
  | TypeError
  | AttributeError
  | OSError
  | JSONDecodeError
  | IllTypedSnapshot

text \<open>
  \<open>KeyError\<close> and \<open>IndexError\<close> are the two subclasses of Python's \<open>LookupError\<close> that
  occur here. \<open>IllTypedSnapshot\<close> is not a Python exception: it marks a snapshot
  file whose values do not have the annotated types of the attributes they are
  assigned to, where Python would go on with an instance outside the typed model.
\<close>

text \<open>Arguments annotated \<^verbatim>\<open>Union[str, list]\<close>, and what Python lets a caller pass.\<close>

datatype pyval = PStr string | PInt int | PList "pyval list" | PNone

text \<open>
  A dict is an association list in insertion order with distinct keys.
  \<open>dict_set\<close> is \<^verbatim>\<open>d[k] = v\<close>: an existing key keeps its place.
\<close>

type_synonym ('k, 'v) dict = "('k \<times> 'v) list"

fun dict_set :: "('k, 'v) dict \<Rightarrow> 'k \<Rightarrow> 'v \<Rightarrow> ('k, 'v) dict" where
  "dict_set [] k v = [(k, v)]"
| "dict_set ((k', v') # d) k v =
     (if k' = k then (k', v) # d else (k', v') # dict_set d k v)"

definition dict_contains :: "('k, 'v) dict \<Rightarrow> 'k \<Rightarrow> bool" where
  "dict_contains d k = (k \<in> set (map fst d))"

definition dict_get :: "('k, 'v) dict \<Rightarrow> 'k \<Rightarrow> error + 'v" where
  "dict_get d k = (case map_of d k of None \<Rightarrow> Inl KeyError | Some v \<Rightarrow> Inr v)"

text \<open>A dict comprehension \<^verbatim>\<open>{k: v for ...}\<close> stores its pairs one after the other.\<close>

definition dict_of_pairs :: "('k \<times> 'v) list \<Rightarrow> ('k, 'v) dict" where
  "dict_of_pairs kvs = foldl (\<lambda>d (k, v). dict_set d k v) [] kvs"

text \<open>\<^verbatim>\<open>xs[n]\<close> for a position \<open>n \<ge> 0\<close>, and \<^verbatim>\<open>xs[-1]\<close>.\<close>

definition py_index :: "'a list \<Rightarrow> nat \<Rightarrow> error + 'a" where
  "py_index xs n = (if n < length xs then Inr (xs ! n) else Inl IndexError)"

definition py_last :: "'a list \<Rightarrow> error + 'a" where
  "py_last xs = (if xs = [] then Inl IndexError else Inr (last xs))"

text \<open>\<^verbatim>\<open>enumerate(xs)\<close>.\<close>

definition enumerate_py :: "'a list \<Rightarrow> (int \<times> 'a) list" where
  "enumerate_py xs = zip (map int [0..<length xs]) xs"

section \<open>String operations\<close>

definition starts_with :: "string \<Rightarrow> string \<Rightarrow> bool" where
  "starts_with s p = (take (length p) s = p)"

text \<open>\<^verbatim>\<open>sub in s\<close> on strings.\<close>

fun contains :: "string \<Rightarrow> string \<Rightarrow> bool" where
  "contains [] sub = (sub = [])"
| "contains (c # cs) sub = (starts_with (c # cs) sub \<or> contains cs sub)"

text \<open>
  \<^verbatim>\<open>s.split(sep)\<close>: the pieces between the occurrences of \<open>sep\<close>, found from
  the left without overlap. An empty separator raises \<open>ValueError\<close>.
\<close>

fun split_loop :: "string \<Rightarrow> string \<Rightarrow> string list" where
  "split_loop sep [] = [[]]"
| "split_loop sep (c # cs) =
     (if sep \<noteq> [] \<and> starts_with (c # cs) sep
      then [] # split_loop sep (drop (length sep) (c # cs))
      else (case split_loop sep cs of
              [] \<Rightarrow> [[c]]
            | p # ps \<Rightarrow> (c # p) # ps))"

definition py_split :: "string \<Rightarrow> string \<Rightarrow> error + string list" where
  "py_split sep s = (if sep = [] then Inl ValueError else Inr (split_loop sep s))"

text \<open>
  \<^verbatim>\<open>s.strip()\<close> removes the characters of \<^verbatim>\<open>str.isspace\<close> from both ends; below
  code point 256 these are the following.
\<close>

definition is_space :: "char \<Rightarrow> bool" where
  "is_space c = (c \<in> set [CHR 0x09, CHR 0x0A, CHR 0x0B, CHR 0x0C, CHR 0x0D,
                           CHR 0x1C, CHR 0x1D, CHR 0x1E, CHR 0x1F, CHR 0x20,
                           CHR 0x85, CHR 0xA0])"

definition strip :: "string \<Rightarrow> string" where
  "strip s = rev (dropWhile is_space (rev (dropWhile is_space s)))"

text \<open>\<^verbatim>\<open>s[-n:]\<close> for \<open>n \<ge> 0\<close>: the whole string when \<open>n = 0\<close> or \<open>n\<close> exceeds its length.\<close>

definition slice_from_end :: "string \<Rightarrow> nat \<Rightarrow> string" where
  "slice_from_end s n = (if n = 0 then s else drop (length s - n) s)"

text \<open>\<^verbatim>\<open>os.path.join(a, b)\<close> of \<^verbatim>\<open>posixpath\<close>.\<close>

definition path_join :: "string \<Rightarrow> string \<Rightarrow> string" where
  "path_join a b =
     (if starts_with b ''/'' then b
      else if a = [] \<or> last a = CHR ''/'' then a @ b
      else a @ ''/'' @ b)"

text \<open>\<^verbatim>\<open>str(i)\<close> and \<^verbatim>\<open>int(s)\<close> for integers in decimal.\<close>

definition digit_char :: "nat \<Rightarrow> char" where
  "digit_char n = char_of (48 + n)"

fun str_of_nat :: "nat \<Rightarrow> string" where
  "str_of_nat n =
     (if n < 10 then [digit_char n] else str_of_nat (n div 10) @ [digit_char (n mod 10)])"

declare str_of_nat.simps [simp del]

definition str_of_int :: "int \<Rightarrow> string" where
  "str_of_int i = (if i < 0 then CHR ''-'' # str_of_nat (nat (- i)) else str_of_nat (nat i))"

definition digit_val :: "char \<Rightarrow> nat option" where
  "digit_val c =
     (let n = (of_char c :: nat) in if 48 \<le> n \<and> n \<le> 57 then Some (n - 48) else None)"

text \<open>Digits, with single underscores allowed between two digits.\<close>

fun parse_digits :: "nat \<Rightarrow> string \<Rightarrow> nat option" where
  "parse_digits acc [] = Some acc"
| "parse_digits acc (c # cs) =
     (case digit_val c of
        Some d \<Rightarrow> parse_digits (10 * acc + d) cs
      | None \<Rightarrow>
          (if c = CHR ''_'' then
             (case cs of
                [] \<Rightarrow> None
              | d # ds \<Rightarrow> (if digit_val d = None then None else parse_digits acc cs))
           else None))"

definition int_of_str :: "string \<Rightarrow> error + int" where
  "int_of_str s =
     (let t = strip s;
          neg = starts_with t ''-'' \<and> t \<noteq> [];
          u = (if t \<noteq> [] \<and> (hd t = CHR ''-'' \<or> hd t = CHR ''+'') then tl t else t)
      in case u of
           [] \<Rightarrow> Inl ValueError
         | c # cs \<Rightarrow>
             (if digit_val c = None then Inl ValueError
              else (case parse_digits 0 u of
                      None \<Rightarrow> Inl ValueError
                    | Some n \<Rightarrow> Inr (if neg then - int n else int n))))"

section \<open>Files\<close>

text \<open>
  The JSON documents that the snapshot needs: objects, strings and integers.
\<close>

datatype json = JInt int | JStr string | JObj "(string \<times> json) list"

text \<open>
  A file holds its decoded text and, when that text is a JSON document, the value
  \<^verbatim>\<open>json.load\<close> returns for it. \<^verbatim>\<open>json.dump\<close> and \<^verbatim>\<open>json.load\<close> belong to
  Python's library and are modelled on that value.

  Directories are not modelled: a path denotes the file stored under the list of its
  components, read from the working directory when the path is relative. Empty
  components and \<^verbatim>\<open>.\<close> are dropped and \<^verbatim>\<open>..\<close> removes the component before it. A
  path whose last component is empty, \<^verbatim>\<open>.\<close> or \<^verbatim>\<open>..\<close> names no regular file.
\<close>

record file_data =
  content :: string
  parsed :: "json option"

record filesystem =
  cwd :: "string list"
  files :: "string list \<rightharpoonup> file_data"

fun collapse_dotdot :: "string list \<Rightarrow> string list \<Rightarrow> string list" where
  "collapse_dotdot acc [] = rev acc"
| "collapse_dotdot acc (c # cs) =
     (if c = ''..'' then collapse_dotdot (case acc of [] \<Rightarrow> [] | _ # r \<Rightarrow> r) cs
      else collapse_dotdot (c # acc) cs)"

definition path_components :: "string \<Rightarrow> string list" where
  "path_components p = filter (\<lambda>c. c \<noteq> [] \<and> c \<noteq> ''.'') (split_loop ''/'' p)"

definition resolve :: "string list \<Rightarrow> string \<Rightarrow> string list" where
  "resolve wd p =
     collapse_dotdot [] ((if starts_with p ''/'' then [] else wd) @ path_components p)"

definition names_file :: "string \<Rightarrow> bool" where
  "names_file p = (last (split_loop ''/'' p) \<notin> set ['''', ''.'', ''..''])"

definition open_read :: "filesystem \<Rightarrow> string \<Rightarrow> error + file_data" where
  "open_read fs p =
     (if \<not> names_file p then Inl OSError
      else (case files fs (resolve (cwd fs) p) of
              None \<Rightarrow> Inl OSError
            | Some f \<Rightarrow> Inr f))"

definition open_write :: "filesystem \<Rightarrow> string \<Rightarrow> file_data \<Rightarrow> error + filesystem" where
  "open_write fs p f =
     (if \<not> names_file p then Inl OSError
      else Inr (fs\<lparr>files := (files fs)(resolve (cwd fs) p \<mapsto> f)\<rparr>))"

text \<open>
  A file opened in text mode translates \<^verbatim>\<open>\r\n\<close> and \<^verbatim>\<open>\r\<close> to \<^verbatim>\<open>\n\<close>; iterating over it
  yields its lines, each with its \<^verbatim>\<open>\n\<close> when it has one.
\<close>

fun universal_newlines :: "string \<Rightarrow> string" where
  "universal_newlines [] = []"
| "universal_newlines [c] = [if c = CHR 0x0D then CHR 0x0A else c]"
| "universal_newlines (c # d # ds) =
     (if c = CHR 0x0D \<and> d = CHR 0x0A then CHR 0x0A # universal_newlines ds
      else if c = CHR 0x0D then CHR 0x0A # universal_newlines (d # ds)
      else c # universal_newlines (d # ds))"

fun file_lines :: "string \<Rightarrow> string list" where
  "file_lines [] = []"
| "file_lines (c # cs) =
     (if c = CHR 0x0A then [c] # file_lines cs
      else (case file_lines cs of
              [] \<Rightarrow> [[c]]
            | l # ls \<Rightarrow> (c # l) # ls))"

definition read_lines :: "filesystem \<Rightarrow> string \<Rightarrow> error + string list" where
  "read_lines fs p =
     (case open_read fs p of
        Inl e \<Rightarrow> Inl e
      | Inr f \<Rightarrow> Inr (file_lines (universal_newlines (content f))))"

text \<open>
  The text \<^verbatim>\<open>json.dump\<close> writes with its default settings: \<^verbatim>\<open>", "\<close> and \<^verbatim>\<open>": "\<close> as
  separators, every character outside \<^verbatim>\<open>' '..'~'\<close> escaped.
\<close>

definition hex_digit :: "nat \<Rightarrow> char" where
  "hex_digit n = (if n < 10 then char_of (48 + n) else char_of (87 + n))"

definition json_escape_char :: "char \<Rightarrow> string" where
  "json_escape_char c =
     (let n = (of_char c :: nat) in
      if c = CHR 0x22 then [CHR 0x5C, CHR 0x22]
      else if c = CHR 0x5C then [CHR 0x5C, CHR 0x5C]
      else if c = CHR 0x08 then [CHR 0x5C, CHR ''b'']
      else if c = CHR 0x0C then [CHR 0x5C, CHR ''f'']
      else if c = CHR 0x0A then [CHR 0x5C, CHR ''n'']
      else if c = CHR 0x0D then [CHR 0x5C, CHR ''r'']
      else if c = CHR 0x09 then [CHR 0x5C, CHR ''t'']
      else if 32 \<le> n \<and> n \<le> 126 then [c]
      else [CHR 0x5C, CHR ''u'', CHR ''0'', CHR ''0'', hex_digit (n div 16), hex_digit (n mod 16)])"

definition json_quote :: "string \<Rightarrow> string" where
  "json_quote s = [CHR 0x22] @ concat (map json_escape_char s) @ [CHR 0x22]"

fun json_dumps :: "json \<Rightarrow> string"
  and json_members :: "(string \<times> json) list \<Rightarrow> string" where
  "json_dumps (JInt i) = str_of_int i"
| "json_dumps (JStr s) = json_quote s"
| "json_dumps (JObj kvs) = ''{'' @ json_members kvs @ ''}''"
| "json_members [] = []"
| "json_members ((k, v) # rest) =
     json_quote k @ '': '' @ json_dumps v @ (if rest = [] then [] else '', '' @ json_members rest)"

definition json_dump :: "filesystem \<Rightarrow> string \<Rightarrow> json \<Rightarrow> error + filesystem" where
  "json_dump fs p doc = open_write fs p \<lparr>content = json_dumps doc, parsed = Some doc\<rparr>"

definition json_load :: "filesystem \<Rightarrow> string \<Rightarrow> error + json" where
  "json_load fs p =
     (case open_read fs p of
        Inl e \<Rightarrow> Inl e
      | Inr f \<Rightarrow> (case parsed f of None \<Rightarrow> Inl JSONDecodeError | Some doc \<Rightarrow> Inr doc))"

text \<open>\<^verbatim>\<open>data[key]\<close> and \<^verbatim>\<open>data.items()\<close> on a loaded document.\<close>

definition json_getitem :: "json \<Rightarrow> string \<Rightarrow> error + json" where
  "json_getitem data key =
     (case data of
        JObj kvs \<Rightarrow> dict_get kvs key
      | _ \<Rightarrow> Inl TypeError)"

definition json_items :: "json \<Rightarrow> error + (string \<times> json) list" where
  "json_items data = (case data of JObj kvs \<Rightarrow> Inr kvs | _ \<Rightarrow> Inl AttributeError)"

text \<open>The values of a loaded document at the types the attributes are annotated with.\<close>

fun as_int_values :: "(string \<times> json) list \<Rightarrow> (string \<times> int) list option" where
  "as_int_values [] = Some []"
| "as_int_values ((k, JInt i) # rest) = map_option ((#) (k, i)) (as_int_values rest)"
| "as_int_values ((k, _) # rest) = None"

definition as_int_dict :: "json \<Rightarrow> error + (string, int) dict" where
  "as_int_dict data =
     (case data of
        JObj kvs \<Rightarrow> (case as_int_values kvs of None \<Rightarrow> Inl IllTypedSnapshot | Some d \<Rightarrow> Inr d)
      | _ \<Rightarrow> Inl IllTypedSnapshot)"

section \<open>The dataclass \<open>ExamplePrepro\<close>\<close>

text \<open>
  The fields of the dataclass in the order of the source, and \<open>reverse_speaker\<close>, the
  attribute that \<^verbatim>\<open>__post_init__\<close> adds (\<open>None\<close> while it is not set). An item is the
  list \<^verbatim>\<open>[text, wav_path, speaker_name]\<close>.
\<close>

record ExamplePrepro =
  root_dir :: string
  symbols :: "string list"
  speakers_map :: "(string, int) dict"
  train_f_name :: string
  delimiter :: string
  f_extension :: string
  save_mapper :: bool
  load_mapper :: bool
  items :: "string list list"
  symbol_to_id :: "(string, int) dict"
  id_to_symbol :: "(int, string) dict"
  reverse_speaker :: "(int, string) dict option"

text \<open>The instance the generated \<^verbatim>\<open>__init__\<close> builds from the field defaults.\<close>

definition new_instance :: "string \<Rightarrow> string list \<Rightarrow> ExamplePrepro" where
  "new_instance root syms =
     \<lparr>root_dir = root, symbols = syms, speakers_map = [], train_f_name = ''train.txt'',
      delimiter = ''|'', f_extension = ''.wav'', save_mapper = False, load_mapper = False,
      items = [], symbol_to_id = [], id_to_symbol = [], reverse_speaker = None\<rparr>"

text \<open>
  The class attributes \<open>positions\<close>, whose three entries \<^verbatim>\<open>"file"\<close>, \<^verbatim>\<open>"text"\<close> and
  \<^verbatim>\<open>"speaker_name"\<close> are the constants below, and \<open>extra_tokens\<close>.
\<close>

definition pos_file :: nat where "pos_file = 0"
definition pos_text :: nat where "pos_text = 1"
definition pos_speaker_name :: nat where "pos_speaker_name = 2"

definition extra_tokens :: "(string, string) dict" where
  "extra_tokens =
     [(''unk'', ''[UNK]''), (''pad'', ''[PAD]''), (''eos'', ''[EOS]''), (''bos'', ''[BOS]'')]"

subsection \<open>\<^verbatim>\<open>__getattr__\<close>\<close>

text \<open>
  Python calls \<^verbatim>\<open>__getattr__\<close> for a name that is neither an attribute of the instance
  nor of its class.
\<close>

definition getattr :: "ExamplePrepro \<Rightarrow> string \<Rightarrow> error + pyval" where
  "getattr self name =
     (if contains name ''_id'' then
        (case py_split ''_id'' name of
           Inl e \<Rightarrow> Inl e
         | Inr parts \<Rightarrow>
             (case py_index parts 0 of
                Inl e \<Rightarrow> Inl e
              | Inr key \<Rightarrow>
                  (case dict_get extra_tokens key of
                     Inl e \<Rightarrow> Inl e
                   | Inr tok \<Rightarrow>
                       (case dict_get (symbol_to_id self) tok of
                          Inl e \<Rightarrow> Inl e
                        | Inr i \<Rightarrow> Inr (PInt i)))))
      else (case dict_get extra_tokens name of
              Inl e \<Rightarrow> Inl e
            | Inr tok \<Rightarrow> Inr (PStr tok)))"

subsection \<open>\<open>create_speaker_map\<close>, \<open>get_speaker_id\<close>, \<open>get_speaker_name\<close>\<close>

fun speaker_loop ::
  "(string, int) dict \<Rightarrow> int \<Rightarrow> string list list \<Rightarrow> error + (string, int) dict" where
  "speaker_loop sm sp_id [] = Inr sm"
| "speaker_loop sm sp_id (i # rest) =
     (case py_last i of
        Inl e \<Rightarrow> Inl e
      | Inr speaker_name \<Rightarrow>
          (if \<not> dict_contains sm speaker_name
           then speaker_loop (dict_set sm speaker_name sp_id) (sp_id + 1) rest
           else speaker_loop sm sp_id rest))"

definition create_speaker_map :: "ExamplePrepro \<Rightarrow> error + ExamplePrepro" where
  "create_speaker_map self =
     (case speaker_loop (speakers_map self) 0 (items self) of
        Inl e \<Rightarrow> Inl e
      | Inr sm \<Rightarrow> Inr (self\<lparr>speakers_map := sm\<rparr>))"

definition get_speaker_id :: "ExamplePrepro \<Rightarrow> string \<Rightarrow> error + int" where
  "get_speaker_id self name = dict_get (speakers_map self) name"

text \<open>
  \<open>get_speaker_name\<close> subscripts \<open>speakers_map\<close>, whose keys are strings, with an
  integer. Keys of both kinds are compared as Python compares them: a string never
  equals an integer.
\<close>

datatype pykey = KStr string | KInt int

definition get_speaker_name :: "ExamplePrepro \<Rightarrow> int \<Rightarrow> error + int" where
  "get_speaker_name self speaker_id =
     dict_get (map (\<lambda>(k, v). (KStr k, v)) (speakers_map self)) (KInt speaker_id)"

subsection \<open>\<open>create_symbols\<close> and \<open>add_symbol\<close>\<close>

definition create_symbols :: "ExamplePrepro \<Rightarrow> ExamplePrepro" where
  "create_symbols self =
     (let syms = symbols self @ map snd extra_tokens in
      self\<lparr>symbols := syms,
           symbol_to_id := dict_of_pairs (map (\<lambda>(i, s). (s, i)) (enumerate_py syms)),
           id_to_symbol := dict_of_pairs (map (\<lambda>(i, s). (i, s)) (enumerate_py syms))\<rparr>)"

text \<open>
  \<open>add_str\<close> is the branch of \<open>add_symbol\<close> for a string; \<open>add_symbol_loop\<close> is its loop
  over a list, which stops at the first exception.
\<close>

definition add_str :: "ExamplePrepro \<Rightarrow> string \<Rightarrow> ExamplePrepro" where
  "add_str self symbol =
     (if dict_contains (symbol_to_id self) symbol then self
      else (let symbol_id = int (length (symbol_to_id self)) in
            self\<lparr>symbols := symbols self @ [symbol],
                 symbol_to_id := dict_set (symbol_to_id self) symbol symbol_id,
                 id_to_symbol := dict_set (id_to_symbol self) symbol_id symbol\<rparr>))"

fun add_symbol :: "ExamplePrepro \<Rightarrow> pyval \<Rightarrow> error + ExamplePrepro"
  and add_symbol_loop :: "ExamplePrepro \<Rightarrow> pyval list \<Rightarrow> error + ExamplePrepro" where
  "add_symbol self (PStr symbol) = Inr (add_str self symbol)"
| "add_symbol self (PList symbol) = add_symbol_loop self symbol"
| "add_symbol self (PInt n) = Inl ValueError"
| "add_symbol self PNone = Inl ValueError"
| "add_symbol_loop self [] = Inr self"
| "add_symbol_loop self (i # rest) =
     (case add_symbol self i of
        Inl e \<Rightarrow> Inl e
      | Inr self' \<Rightarrow> add_symbol_loop self' rest)"

subsection \<open>\<open>create_items\<close>\<close>

text \<open>One pass of the loop body: the item a manifest line yields.\<close>

definition parse_line :: "ExamplePrepro \<Rightarrow> string \<Rightarrow> error + string list" where
  "parse_line self line =
     (case py_split (delimiter self) (strip line) of
        Inl e \<Rightarrow> Inl e
      | Inr parts \<Rightarrow>
          (case py_index parts pos_file of
             Inl e \<Rightarrow> Inl e
           | Inr file \<Rightarrow>
               (let joined = path_join (root_dir self) file;
                    wav_path =
                      (if slice_from_end joined (length (f_extension self)) \<noteq> f_extension self
                       then joined @ f_extension self
                       else joined)
                in case py_index parts pos_text of
                     Inl e \<Rightarrow> Inl e
                   | Inr text \<Rightarrow>
                       (case py_index parts pos_speaker_name of
                          Inl e \<Rightarrow> Inl e
                        | Inr speaker_name \<Rightarrow> Inr [text, wav_path, speaker_name]))))"

fun items_loop :: "ExamplePrepro \<Rightarrow> string list \<Rightarrow> error + ExamplePrepro" where
  "items_loop self [] = Inr self"
| "items_loop self (line # rest) =
     (case parse_line self line of
        Inl e \<Rightarrow> Inl e
      | Inr item \<Rightarrow> items_loop (self\<lparr>items := items self @ [item]\<rparr>) rest)"

definition create_items :: "filesystem \<Rightarrow> ExamplePrepro \<Rightarrow> error + ExamplePrepro" where
  "create_items fs self =
     (case read_lines fs (path_join (root_dir self) (train_f_name self)) of
        Inl e \<Rightarrow> Inl e
      | Inr ls \<Rightarrow> items_loop self ls)"

subsection \<open>\<open>convert_symbols_to_ids\<close>\<close>

text \<open>
  The method reads \<^verbatim>\<open>self._symbol_to_id[s]\<close>. The class has no attribute
  \<^verbatim>\<open>_symbol_to_id\<close> (the field is \<^verbatim>\<open>symbol_to_id\<close>), so the name goes to
  \<^verbatim>\<open>__getattr__\<close>, and what that returns, a string or an integer, is subscripted with
  the symbol: a \<open>TypeError\<close> for either.
\<close>

definition py_subscript :: "pyval \<Rightarrow> string \<Rightarrow> error + int" where
  "py_subscript v key =
     (case v of
        PStr s \<Rightarrow> Inl TypeError
      | PInt n \<Rightarrow> Inl TypeError
      | PList xs \<Rightarrow> Inl TypeError
      | PNone \<Rightarrow> Inl TypeError)"

definition attr_symbol_to_id_item :: "ExamplePrepro \<Rightarrow> string \<Rightarrow> error + int" where
  "attr_symbol_to_id_item self s =
     (case getattr self ''_symbol_to_id'' of
        Inl e \<Rightarrow> Inl e
      | Inr v \<Rightarrow> py_subscript v s)"

fun convert_loop :: "ExamplePrepro \<Rightarrow> int list \<Rightarrow> pyval list \<Rightarrow> error + int list" where
  "convert_loop self sequence [] = Inr sequence"
| "convert_loop self sequence (s # rest) =
     (case s of
        PStr x \<Rightarrow>
          (case attr_symbol_to_id_item self x of
             Inl e \<Rightarrow> Inl e
           | Inr i \<Rightarrow> convert_loop self (sequence @ [i]) rest)
      | _ \<Rightarrow> Inl ValueError)"

definition convert_symbols_to_ids :: "ExamplePrepro \<Rightarrow> pyval \<Rightarrow> error + int list" where
  "convert_symbols_to_ids self syms =
     (case syms of
        PStr x \<Rightarrow>
          (case attr_symbol_to_id_item self x of
             Inl e \<Rightarrow> Inl e
           | Inr i \<Rightarrow> Inr [i])
      | PList xs \<Rightarrow> convert_loop self [] xs
      | _ \<Rightarrow> Inl ValueError)"

subsection \<open>\<^verbatim>\<open>__load_mapper\<close> and \<^verbatim>\<open>__save_mapper\<close>\<close>

text \<open>
  \<^verbatim>\<open>json.dump\<close> writes the integer keys of \<open>id_to_symbol\<close> as decimal strings. The save
  path is the f-string \<^verbatim>\<open>f"{self.root_dir}/mapper.json"\<close>, the load path is
  \<^verbatim>\<open>os.path.join(self.root_dir, "mapper.json")\<close>.
\<close>

definition full_mapper :: "ExamplePrepro \<Rightarrow> json" where
  "full_mapper self =
     JObj [(''symbol_to_id'', JObj (map (\<lambda>(k, v). (k, JInt v)) (symbol_to_id self))),
           (''id_to_symbol'', JObj (map (\<lambda>(k, v). (str_of_int k, JStr v)) (id_to_symbol self))),
           (''speakers_map'', JObj (map (\<lambda>(k, v). (k, JInt v)) (speakers_map self)))]"

definition private_save_mapper :: "filesystem \<Rightarrow> ExamplePrepro \<Rightarrow> error + filesystem" where
  "private_save_mapper fs self =
     json_dump fs (root_dir self @ ''/mapper.json'') (full_mapper self)"

text \<open>\<^verbatim>\<open>{int(k): v for k, v in data["id_to_symbol"].items()}\<close>.\<close>

fun int_keys_loop ::
  "(int, string) dict \<Rightarrow> (string \<times> json) list \<Rightarrow> error + (int, string) dict" where
  "int_keys_loop d [] = Inr d"
| "int_keys_loop d ((k, v) # rest) =
     (case int_of_str k of
        Inl e \<Rightarrow> Inl e
      | Inr i \<Rightarrow>
          (case v of
             JStr s \<Rightarrow> int_keys_loop (dict_set d i s) rest
           | _ \<Rightarrow> Inl IllTypedSnapshot))"

definition private_load_mapper :: "filesystem \<Rightarrow> ExamplePrepro \<Rightarrow> error + ExamplePrepro" where
  "private_load_mapper fs self =
     (case json_load fs (path_join (root_dir self) ''mapper.json'') of
        Inl e \<Rightarrow> Inl e
      | Inr data \<Rightarrow>
     (case json_getitem data ''speakers_map'' of
        Inl e \<Rightarrow> Inl e
      | Inr sm_doc \<Rightarrow>
     (case as_int_dict sm_doc of
        Inl e \<Rightarrow> Inl e
      | Inr sm \<Rightarrow>
     (case json_getitem data ''symbol_to_id'' of
        Inl e \<Rightarrow> Inl e
      | Inr s2i_doc \<Rightarrow>
     (case as_int_dict s2i_doc of
        Inl e \<Rightarrow> Inl e
      | Inr s2i \<Rightarrow>
     (case json_getitem data ''id_to_symbol'' of
        Inl e \<Rightarrow> Inl e
      | Inr i2s_doc \<Rightarrow>
     (case json_items i2s_doc of
        Inl e \<Rightarrow> Inl e
      | Inr kvs \<Rightarrow>
     (case int_keys_loop [] kvs of
        Inl e \<Rightarrow> Inl e
      | Inr i2s \<Rightarrow>
          Inr (self\<lparr>speakers_map := sm, symbol_to_id := s2i, id_to_symbol := i2s\<rparr>)))))))))"

subsection \<open>\<^verbatim>\<open>__post_init__\<close>\<close>

text \<open>
  Construction: the generated \<^verbatim>\<open>__init__\<close> stores the arguments and calls
  \<^verbatim>\<open>__post_init__\<close>, which returns the file system and the instance it leaves.
\<close>

definition post_init :: "filesystem \<Rightarrow> ExamplePrepro \<Rightarrow> error + filesystem \<times> ExamplePrepro" where
  "post_init fs self =
     (if load_mapper self then
        (case private_load_mapper fs self of
           Inl e \<Rightarrow> Inl e
         | Inr loaded \<Rightarrow> Inr (fs, loaded))
      else if length (symbols self) < 1 then Inl DataProcessorError
      else
        (case create_items fs self of
           Inl e \<Rightarrow> Inl e
         | Inr s1 \<Rightarrow>
        (case create_speaker_map s1 of
           Inl e \<Rightarrow> Inl e
         | Inr s2 \<Rightarrow>
             (let s3 = s2\<lparr>reverse_speaker :=
                          Some (dict_of_pairs (map (\<lambda>(k, v). (v, k)) (speakers_map s2)))\<rparr>;
                  s4 = create_symbols s3
              in if save_mapper s4 then
                   (case private_save_mapper fs s4 of
                      Inl e \<Rightarrow> Inl e
                    | Inr fs' \<Rightarrow> Inr (fs', s4))
                 else Inr (fs, s4)))))"

section \<open>Example inputs\<close>

text \<open>
  A file system whose working directory is \<^verbatim>\<open>/home\<close> and whose only file is the
  manifest \<^verbatim>\<open>/data/train.txt\<close> with the given text.
\<close>

definition manifest_fs :: "string \<Rightarrow> filesystem" where
  "manifest_fs txt =
     \<lparr>cwd = [''home''],
      files = [[''data'', ''train.txt''] \<mapsto> \<lparr>content = txt, parsed = None\<rparr>]\<rparr>"

text \<open>The manifest line of the specification's example, with its line end.\<close>

definition example_line :: string where
  "example_line = ''wav001|hello world|spk1'' @ [CHR 0x0A]"

text \<open>
  The instance that construction leaves for \<^verbatim>\<open>root_dir="/data"\<close>,
  \<^verbatim>\<open>symbols=["a","b","c"]\<close> and a manifest holding the example line.
\<close>

definition example_instance :: ExamplePrepro where
  "example_instance =
     \<lparr>root_dir = ''/data'',
      symbols = [''a'', ''b'', ''c'', ''[UNK]'', ''[PAD]'', ''[EOS]'', ''[BOS]''],
      speakers_map = [(''spk1'', 0)],
      train_f_name = ''train.txt'', delimiter = ''|'', f_extension = ''.wav'',
      save_mapper = False, load_mapper = False,
      items = [[''hello world'', ''/data/wav001.wav'', ''spk1'']],
      symbol_to_id =
        [(''a'', 0), (''b'', 1), (''c'', 2), (''[UNK]'', 3), (''[PAD]'', 4), (''[EOS]'', 5),
         (''[BOS]'', 6)],
      id_to_symbol =
        [(0, ''a''), (1, ''b''), (2, ''c''), (3, ''[UNK]''), (4, ''[PAD]''), (5, ''[EOS]''),
         (6, ''[BOS]'')],
      reverse_speaker = Some [(0, ''spk1'')]\<rparr>"

text \<open>An instance with three items of two speakers and no speaker yet in its map.\<close>

definition three_items :: ExamplePrepro where
  "three_items =
     (new_instance ''/data'' [''a''])
       \<lparr>items := [[''t1'', ''w1'', ''s1''], [''t2'', ''w2'', ''s2''], [''t3'', ''w3'', ''s1'']]\<rparr>"

text \<open>A manifest of two lines; the second names its file with the extension.\<close>

definition two_lines :: string where
  "two_lines = example_line @ ''wav002.wav|bye|spk2'' @ [CHR 0x0A]"

text \<open>
  A file system whose working directory is \<^verbatim>\<open>/home\<close> and whose only file is the manifest
  \<^verbatim>\<open>/home/train.txt\<close>, which an instance with \<^verbatim>\<open>root_dir=""\<close> reads as \<^verbatim>\<open>train.txt\<close>.
\<close>

definition relative_fs :: filesystem where
  "relative_fs =
     \<lparr>cwd = [''home''],
      files = [[''home'', ''train.txt''] \<mapsto> \<lparr>content = example_line, parsed = None\<rparr>]\<rparr>"

text \<open>
  Two constructions in a row: \<open>None\<close> when the first raises, otherwise what the second
  yields on the file system the first has left.
\<close>

definition construct_then_reload ::
  "filesystem \<Rightarrow> ExamplePrepro \<Rightarrow> ExamplePrepro \<Rightarrow> (error + ExamplePrepro) option" where
  "construct_then_reload fs first second =
     (case post_init fs first of
        Inl e \<Rightarrow> None
      | Inr (fs', st) \<Rightarrow> Some (map_sum id snd (post_init fs' second)))"

section \<open>Facts about dictionaries\<close>

lemma map_of_dict_set: "map_of (dict_set d k v) = (map_of d)(k \<mapsto> v)"
  by (induction d) (auto simp: fun_eq_iff)

lemma keys_dict_set:
  "map fst (dict_set d k v) = (if k \<in> set (map fst d) then map fst d else map fst d @ [k])"
  by (induction d) force+

lemma dict_set_new: "k \<notin> set (map fst d) \<Longrightarrow> dict_set d k v = d @ [(k, v)]"
  by (induction d) force+

lemma length_dict_set:
  "length (dict_set d k v) = (if k \<in> set (map fst d) then length d else Suc (length d))"
  by (induction d) force+

lemma foldl_dict_set_distinct:
  "distinct (map fst (d @ kvs)) \<Longrightarrow> foldl (\<lambda>d (k, v). dict_set d k v) d kvs = d @ kvs"
proof (induction kvs arbitrary: d)
  case Nil
  then show ?case by simp
next
  case (Cons kv kvs)
  obtain k v where kv: "kv = (k, v)" by (cases kv)
  from Cons.prems have new: "k \<notin> set (map fst d)" by (auto simp: kv)
  from Cons.prems have "distinct (map fst ((d @ [(k, v)]) @ kvs))" by (simp add: kv)
  from Cons.IH[OF this] show ?case by (simp add: kv dict_set_new[OF new])
qed

lemma dict_of_pairs_distinct: "distinct (map fst kvs) \<Longrightarrow> dict_of_pairs kvs = kvs"
  using foldl_dict_set_distinct[of "[]" kvs] by (simp add: dict_of_pairs_def)

lemma map_of_foldl_dict_set:
  "map_of (foldl (\<lambda>d (k, v). dict_set d k v) d kvs) = map_of d ++ map_of (rev kvs)"
proof (induction kvs arbitrary: d)
  case Nil
  then show ?case by simp
next
  case (Cons kv kvs)
  obtain k v where kv: "kv = (k, v)" by (cases kv)
  show ?case by (simp add: kv Cons.IH map_of_dict_set fun_eq_iff map_add_def split: option.splits)
qed

lemma map_of_dict_of_pairs: "map_of (dict_of_pairs kvs) = map_of (rev kvs)"
  by (simp add: dict_of_pairs_def map_of_foldl_dict_set)

lemma dict_get_append_new:
  "k \<notin> set (map fst d) \<Longrightarrow> dict_get (d @ [(k, v)]) k = Inr v"
  by (induction d) (auto simp: dict_get_def)

lemma key_set_dict_set: "fst ` set (dict_set d k v) = insert k (fst ` set d)"
  by (induction d) force+

lemma dict_get_dict_set_other:
  "t \<noteq> k \<Longrightarrow> dict_get (dict_set d k v) t = dict_get d t"
  by (simp add: dict_get_def map_of_dict_set)

lemma dict_get_dict_set_same: "dict_get (dict_set d k v) k = Inr v"
  by (simp add: dict_get_def map_of_dict_set)

section \<open>Construction rejects an empty symbols list\<close>

text \<open>
  Claim C8. When \<open>load_mapper\<close> is not set and \<open>symbols\<close> is empty,
  \<^verbatim>\<open>__post_init__\<close> raises \<open>DataProcessorError\<close>. It does so on every file system,
  also where reading the manifest would raise: nothing is parsed or built before.
\<close>

theorem post_init_empty_symbols:
  "\<not> load_mapper self \<Longrightarrow> symbols self = [] \<Longrightarrow> post_init fs self = Inl DataProcessorError"
  by (simp add: post_init_def)

theorem post_init_empty_symbols_witness:
  "\<not> load_mapper (new_instance ''/data'' []) \<and>
   symbols (new_instance ''/data'' []) = [] \<and>
   post_init \<lparr>cwd = [], files = Map.empty\<rparr> (new_instance ''/data'' []) = Inl DataProcessorError"
  using post_init_empty_symbols [of "new_instance ''/data'' []" "\<lparr>cwd = [], files = Map.empty\<rparr>"]
  by (simp add: new_instance_def)
section \<open>\<open>convert_symbols_to_ids\<close> on symbols of the table\<close>

lemma getattr_underscore_symbol_to_id: "getattr self ''_symbol_to_id'' = Inl KeyError"
  by (simp add: getattr_def py_split_def py_index_def dict_get_def extra_tokens_def
      starts_with_def)

lemma attr_symbol_to_id_item_raises: "attr_symbol_to_id_item self s = Inl KeyError"
  by (simp add: attr_symbol_to_id_item_def getattr_underscore_symbol_to_id)

lemma convert_symbols_to_ids_str: "convert_symbols_to_ids self (PStr s) = Inl KeyError"
  by (simp add: convert_symbols_to_ids_def attr_symbol_to_id_item_raises)

lemma convert_loop_returns:
  "convert_loop self sq xs = Inr r \<Longrightarrow> xs = [] \<and> r = sq"
  by (cases xs) (auto simp: attr_symbol_to_id_item_raises split: pyval.splits)

lemma convert_symbols_to_ids_returns:
  "convert_symbols_to_ids self v = Inr r \<Longrightarrow> v = PList [] \<and> r = []"
  by (cases v) (auto simp: convert_symbols_to_ids_def attr_symbol_to_id_item_raises
      dest: convert_loop_returns)

text \<open>
  Claim C1 (the code departs from it). The instance constructed from
  \<^verbatim>\<open>symbols=["a","b","c"]\<close> has \<^verbatim>\<open>"a"\<close> and \<^verbatim>\<open>"b"\<close> in its table with ids 0 and 1, yet
  \<open>convert_symbols_to_ids\<close> returns neither \<open>[0, 1]\<close> for the list nor \<open>[0]\<close> for the bare
  string: both calls raise \<open>KeyError\<close>, because the method reads the attribute
  \<^verbatim>\<open>_symbol_to_id\<close>, which \<^verbatim>\<open>__getattr__\<close> looks up among the reserved tokens. A list
  whose first element is not a string raises \<open>ValueError\<close>.
\<close>

theorem convert_symbols_to_ids_raises_for_known_symbols:
  "map_sum id snd (post_init (manifest_fs example_line) (new_instance ''/data'' [''a'', ''b'', ''c'']))
     = Inr example_instance \<and>
   dict_get (symbol_to_id example_instance) ''a'' = Inr 0 \<and>
   dict_get (symbol_to_id example_instance) ''b'' = Inr 1 \<and>
   convert_symbols_to_ids example_instance (PList [PStr ''a'', PStr ''b'']) = Inl KeyError \<and>
   convert_symbols_to_ids example_instance (PStr ''a'') = Inl KeyError \<and>
   convert_symbols_to_ids example_instance (PList [PInt 1]) = Inl ValueError"
  by code_simp

section \<open>\<open>get_speaker_name\<close> after \<open>get_speaker_id\<close>\<close>

lemma map_of_str_keys_int: "map_of (map (\<lambda>(k, v). (KStr k, v)) d) (KInt i) = None"
  by (induction d) auto

lemma get_speaker_name_raises: "get_speaker_name self i = Inl KeyError"
  by (simp add: get_speaker_name_def dict_get_def map_of_str_keys_int)

text \<open>
  Claim C2 (the code departs from it). After construction from the example manifest
  the speaker \<^verbatim>\<open>spk1\<close> has id 0 and the reverse mapping built in \<^verbatim>\<open>__post_init__\<close>
  holds \<open>0 \<mapsto> spk1\<close>, but \<open>get_speaker_name 0\<close> does not return \<^verbatim>\<open>spk1\<close>: it subscripts
  \<open>speakers_map\<close>, whose keys are the names, and raises \<open>KeyError\<close>.
\<close>

theorem get_speaker_name_of_get_speaker_id_raises:
  "map_sum id snd (post_init (manifest_fs example_line) (new_instance ''/data'' [''a'', ''b'', ''c'']))
     = Inr example_instance \<and>
   get_speaker_id example_instance ''spk1'' = Inr 0 \<and>
   reverse_speaker example_instance = Some [(0, ''spk1'')] \<and>
   get_speaker_name example_instance 0 = Inl KeyError"
  by code_simp

section \<open>\<open>add_symbol\<close>\<close>

lemma add_str_present: "dict_contains (symbol_to_id self) s \<Longrightarrow> add_str self s = self"
  by (simp add: add_str_def)

lemma add_str_twice: "add_str (add_str self s) s = add_str self s"
  by (simp add: add_str_def dict_contains_def key_set_dict_set Let_def)

text \<open>
  Claim C6. \<open>add_symbol\<close> with a string of the table returns the instance unchanged,
  so the table keeps its size and the string its id. With a string that is not in the
  table it appends the string to \<open>symbol_to_id\<close> with the previous size of the table as
  its id, and to \<open>symbols\<close>. Adding the same string again changes nothing, and the ids
  of the strings already present stay as they were. A list is added element by element
  from the left, stopping at the first exception; an integer or \<open>None\<close> raises
  \<open>ValueError\<close>.
\<close>

theorem add_symbol_idempotent:
  "(dict_contains (symbol_to_id self) s \<longrightarrow> add_symbol self (PStr s) = Inr self) \<and>
   (\<not> dict_contains (symbol_to_id self) s \<longrightarrow>
      (\<exists>st. add_symbol self (PStr s) = Inr st \<and>
            symbol_to_id st = symbol_to_id self @ [(s, int (length (symbol_to_id self)))] \<and>
            dict_get (symbol_to_id st) s = Inr (int (length (symbol_to_id self))) \<and>
            length (symbol_to_id st) = length (symbol_to_id self) + 1 \<and>
            symbols st = symbols self @ [s] \<and>
            dict_get (id_to_symbol st) (int (length (symbol_to_id self))) = Inr s)) \<and>
   (\<forall>st. add_symbol self (PStr s) = Inr st \<longrightarrow>
      add_symbol st (PStr s) = Inr st \<and>
      (\<forall>t. dict_contains (symbol_to_id self) t \<longrightarrow>
           dict_get (symbol_to_id st) t = dict_get (symbol_to_id self) t)) \<and>
   add_symbol self (PList []) = Inr self \<and>
   add_symbol self (PList (x # xs)) =
     (case add_symbol self x of Inl e \<Rightarrow> Inl e | Inr st \<Rightarrow> add_symbol st (PList xs)) \<and>
   add_symbol self (PInt n) = Inl ValueError \<and>
   add_symbol self PNone = Inl ValueError"
proof -
  have present: "dict_contains (symbol_to_id self) s \<longrightarrow> add_symbol self (PStr s) = Inr self"
    by (simp add: add_str_present)
  have absent: "\<not> dict_contains (symbol_to_id self) s \<longrightarrow>
      (\<exists>st. add_symbol self (PStr s) = Inr st \<and>
            symbol_to_id st = symbol_to_id self @ [(s, int (length (symbol_to_id self)))] \<and>
            dict_get (symbol_to_id st) s = Inr (int (length (symbol_to_id self))) \<and>
            length (symbol_to_id st) = length (symbol_to_id self) + 1 \<and>
            symbols st = symbols self @ [s] \<and>
            dict_get (id_to_symbol st) (int (length (symbol_to_id self))) = Inr s)"
    by (simp add: add_str_def dict_contains_def Let_def dict_set_new dict_get_append_new
        dict_get_dict_set_same)
  have stable: "\<forall>st. add_symbol self (PStr s) = Inr st \<longrightarrow>
      add_symbol st (PStr s) = Inr st \<and>
      (\<forall>t. dict_contains (symbol_to_id self) t \<longrightarrow>
           dict_get (symbol_to_id st) t = dict_get (symbol_to_id self) t)"
  proof (intro allI impI conjI)
    fix st assume "add_symbol self (PStr s) = Inr st"
    then have st: "st = add_str self s" by simp
    show "add_symbol st (PStr s) = Inr st" by (simp add: st add_str_twice)
    fix t assume "dict_contains (symbol_to_id self) t"
    then show "dict_get (symbol_to_id st) t = dict_get (symbol_to_id self) t"
      by (cases "t = s") (auto simp: st add_str_def Let_def dict_get_dict_set_other)
  qed
  have nil: "add_symbol self (PList []) = Inr self" by simp
  have cons: "add_symbol self (PList (x # xs)) =
     (case add_symbol self x of Inl e \<Rightarrow> Inl e | Inr st \<Rightarrow> add_symbol st (PList xs))"
    by (simp split: sum.splits)
  show ?thesis by (intro conjI present absent stable nil cons) simp_all
qed

theorem add_symbol_idempotent_witness:
  "dict_contains (symbol_to_id example_instance) ''a'' \<and>
   add_symbol example_instance (PStr ''a'') = Inr example_instance \<and>
   \<not> dict_contains (symbol_to_id example_instance) ''z'' \<and>
   length (symbol_to_id example_instance) = 7 \<and>
   map_sum id symbol_to_id (add_symbol example_instance (PStr ''z'')) =
     Inr (symbol_to_id example_instance @ [(''z'', 7)]) \<and>
   map_sum id symbol_to_id (add_symbol example_instance (PList [PStr ''z'', PStr ''a'', PStr ''z''])) =
     Inr (symbol_to_id example_instance @ [(''z'', 7)]) \<and>
   add_symbol example_instance (PList [PStr ''z'', PInt 3]) = Inl ValueError"
proof -
  have a: "dict_contains (symbol_to_id example_instance) ''a''" by code_simp
  have z: "\<not> dict_contains (symbol_to_id example_instance) ''z''" by code_simp
  have 1: "add_symbol example_instance (PStr ''a'') = Inr example_instance"
    using add_symbol_idempotent [of example_instance "''a''"] a by blast
  have 2: "length (symbol_to_id example_instance) = 7" by code_simp
  obtain st where st: "add_symbol example_instance (PStr ''z'') = Inr st"
    "symbol_to_id st = symbol_to_id example_instance @ [(''z'', int (length (symbol_to_id example_instance)))]"
    using add_symbol_idempotent [of example_instance "''z''"] z by blast
  have 3: "map_sum id symbol_to_id (add_symbol example_instance (PStr ''z'')) =
     Inr (symbol_to_id example_instance @ [(''z'', 7)])"
    using st 2 by auto
  have 4: "map_sum id symbol_to_id (add_symbol example_instance (PList [PStr ''z'', PStr ''a'', PStr ''z''])) =
     Inr (symbol_to_id example_instance @ [(''z'', 7)])" by code_simp
  have 5: "add_symbol example_instance (PList [PStr ''z'', PInt 3]) = Inl ValueError" by code_simp
  show ?thesis using a z 1 2 3 4 5 by simp
qed

section \<open>Speaker ids\<close>

lemma remdups_snoc: "remdups (ys @ [x]) = filter (\<lambda>y. y \<noteq> x) (remdups ys) @ [x]"
  by (induction ys) auto

lemma first_seen_snoc:
  "rev (remdups (rev xs @ [x])) = x # filter (\<lambda>y. y \<noteq> x) (rev (remdups (rev xs)))"
  by (simp add: remdups_snoc rev_filter)

lemma ids_of_enumerate:
  "map snd (map (\<lambda>(i, n). (n, int i)) (List.enumerate k ns)) = map int [k..<k + length ns]"
proof -
  have "map snd (map (\<lambda>(i, n). (n, int i)) (List.enumerate k ns))
      = map (int \<circ> fst) (List.enumerate k ns)"
    by (simp add: comp_def case_prod_unfold)
  also have "\<dots> = map int (map fst (List.enumerate k ns))"
    by (simp only: map_map)
  also have "\<dots> = map int [k..<k + length ns]"
    by (simp only: map_fst_enumerate)
  finally show ?thesis .
qed

lemma names_of_enumerate:
  "map fst (map (\<lambda>(i, n). (n, int i)) (List.enumerate k ns)) = ns"
  by (induction ns arbitrary: k) simp_all

lemma speaker_loop_result:
  "speaker_loop sm (int k) its = Inr r \<Longrightarrow>
   r = sm @ map (\<lambda>(i, n). (n, int i))
             (List.enumerate k (filter (\<lambda>n. n \<notin> set (map fst sm))
                (rev (remdups (rev (map last its))))))"
proof (induction its arbitrary: sm k)
  case Nil
  then show ?case by simp
next
  case (Cons it rest)
  from Cons.prems have ne: "it \<noteq> []" by (auto simp: py_last_def split: if_splits)
  let ?name = "last it"
  let ?seen = "rev (remdups (rev (map last rest)))"
  show ?case
  proof (cases "dict_contains sm ?name")
    case True
    with Cons.prems ne have "speaker_loop sm (int k) rest = Inr r" by (simp add: py_last_def)
    from Cons.IH[OF this] have r: "r = sm @ map (\<lambda>(i, n). (n, int i))
             (List.enumerate k (filter (\<lambda>n. n \<notin> set (map fst sm)) ?seen))" .
    from True have "filter (\<lambda>n. n \<notin> set (map fst sm)) (filter (\<lambda>y. y \<noteq> ?name) ?seen)
        = filter (\<lambda>n. n \<notin> set (map fst sm)) ?seen"
      by (auto simp: dict_contains_def intro!: filter_cong)
    with True r show ?thesis by (simp add: first_seen_snoc dict_contains_def)
  next
    case False
    then have new: "?name \<notin> set (map fst sm)" by (simp add: dict_contains_def)
    from Cons.prems ne False
    have "speaker_loop (sm @ [(?name, int k)]) (int (Suc k)) rest = Inr r"
      by (simp add: py_last_def dict_set_new[OF new] add.commute)
    from Cons.IH[OF this] have r: "r = (sm @ [(?name, int k)]) @ map (\<lambda>(i, n). (n, int i))
             (List.enumerate (Suc k)
                (filter (\<lambda>n. n \<notin> set (map fst (sm @ [(?name, int k)]))) ?seen))" .
    have "filter (\<lambda>n. n \<notin> set (map fst (sm @ [(?name, int k)]))) ?seen
        = filter (\<lambda>n. n \<notin> set (map fst sm)) (filter (\<lambda>y. y \<noteq> ?name) ?seen)"
      by (auto intro!: filter_cong)
    with r new show ?thesis by (simp add: first_seen_snoc)
  qed
qed

lemma speaker_loop_returns:
  "[] \<notin> set its \<Longrightarrow> \<exists>r. speaker_loop sm c its = Inr r"
  by (induction its arbitrary: sm c) (auto simp: py_last_def)

lemma speaker_loop_raises:
  "[] \<in> set its \<Longrightarrow> speaker_loop sm c its = Inl IndexError"
  by (induction its arbitrary: sm c) (auto simp: py_last_def)

lemma create_speaker_map_result:
  assumes "create_speaker_map self = Inr st"
  shows "\<exists>new. st = self\<lparr>speakers_map := speakers_map self @ new\<rparr> \<and>
           map fst new = filter (\<lambda>n. \<not> dict_contains (speakers_map self) n)
                           (rev (remdups (rev (map last (items self))))) \<and>
           map snd new = map int [0..<length new]"
proof -
  from assms obtain r where r: "speaker_loop (speakers_map self) (int 0) (items self) = Inr r"
    and st: "st = self\<lparr>speakers_map := r\<rparr>"
    by (auto simp: create_speaker_map_def split: sum.splits)
  let ?ns = "filter (\<lambda>n. n \<notin> set (map fst (speakers_map self)))
                (rev (remdups (rev (map last (items self)))))"
  let ?new = "map (\<lambda>(i, n). (n, int i)) (List.enumerate 0 ?ns)"
  from speaker_loop_result[OF r] have "r = speakers_map self @ ?new" .
  moreover have "map fst ?new = ?ns"
    by (rule names_of_enumerate)
  moreover have "map snd ?new = map int [0..<length ?new]"
    using ids_of_enumerate[of 0 ?ns] by simp
  ultimately show ?thesis using st by (auto simp: dict_contains_def)
qed

text \<open>
  Claim C10. \<open>create_speaker_map\<close> starts its counter at 0 whatever \<open>speakers_map\<close>
  holds: the names it adds are the speakers of the items that are not yet in the map, in
  the order of their first occurrence, with the ids 0, 1, 2, ... When the map is empty
  at the start, the result therefore lists the speakers in first-occurrence order with
  dense ids, and no two names share an id. When it is not, ids can collide: with
  \<^verbatim>\<open>speakers_map={"old": 0}\<close> and the example manifest, the new speaker \<^verbatim>\<open>spk1\<close> is
  given the id 0 that \<^verbatim>\<open>old\<close> already has.
\<close>

theorem speaker_ids_restart_at_zero:
  "(create_speaker_map self = Inr st \<longrightarrow>
      (\<exists>new. speakers_map st = speakers_map self @ new \<and>
             map fst new = filter (\<lambda>n. \<not> dict_contains (speakers_map self) n)
                             (rev (remdups (rev (map last (items self))))) \<and>
             map snd new = map int [0..<length new])) \<and>
   (speakers_map self = [] \<and> create_speaker_map self = Inr st \<longrightarrow>
      map fst (speakers_map st) = rev (remdups (rev (map last (items self)))) \<and>
      map snd (speakers_map st) = map int [0..<length (speakers_map st)] \<and>
      distinct (map fst (speakers_map st)) \<and>
      distinct (map snd (speakers_map st))) \<and>
   map_sum id (speakers_map \<circ> snd)
     (post_init (manifest_fs example_line)
        ((new_instance ''/data'' [''a''])\<lparr>speakers_map := [(''old'', 0)]\<rparr>)) =
     Inr [(''old'', 0), (''spk1'', 0)]"
proof (intro conjI impI)
  assume "create_speaker_map self = Inr st"
  from create_speaker_map_result[OF this]
  show "\<exists>new. speakers_map st = speakers_map self @ new \<and>
             map fst new = filter (\<lambda>n. \<not> dict_contains (speakers_map self) n)
                             (rev (remdups (rev (map last (items self))))) \<and>
             map snd new = map int [0..<length new]"
    by auto
next
  assume a: "speakers_map self = [] \<and> create_speaker_map self = Inr st"
  then obtain new where new: "speakers_map st = new"
    "map fst new = rev (remdups (rev (map last (items self))))"
    "map snd new = map int [0..<length new]"
    using create_speaker_map_result[of self st] by (auto simp: dict_contains_def)
  show "map fst (speakers_map st) = rev (remdups (rev (map last (items self))))"
    by (simp add: new)
  show "map snd (speakers_map st) = map int [0..<length (speakers_map st)]"
    using new by simp
  show "distinct (map fst (speakers_map st))" by (simp add: new)
  show "distinct (map snd (speakers_map st))"
    by (simp add: new(1,3) distinct_map)
next
  show "map_sum id (speakers_map \<circ> snd)
     (post_init (manifest_fs example_line)
        ((new_instance ''/data'' [''a''])\<lparr>speakers_map := [(''old'', 0)]\<rparr>)) =
     Inr [(''old'', 0), (''spk1'', 0)]"
    by code_simp
qed

theorem speaker_ids_restart_at_zero_witness:
  "speakers_map three_items = [] \<and>
   create_speaker_map three_items = Inr (three_items\<lparr>speakers_map := [(''s1'', 0), (''s2'', 1)]\<rparr>) \<and>
   rev (remdups (rev (map last (items three_items)))) = [''s1'', ''s2''] \<and>
   map fst [(''s1'', 0::int), (''s2'', 1)] = [''s1'', ''s2''] \<and>
   distinct (map snd [(''s1'', 0::int), (''s2'', 1)])"
proof -
  have e: "speakers_map three_items = []" by code_simp
  have run: "create_speaker_map three_items =
      Inr (three_items\<lparr>speakers_map := [(''s1'', 0), (''s2'', 1)]\<rparr>)"
    by code_simp
  have names: "rev (remdups (rev (map last (items three_items)))) = [''s1'', ''s2'']"
    by code_simp
  from speaker_ids_restart_at_zero
    [of three_items "three_items\<lparr>speakers_map := [(''s1'', 0), (''s2'', 1)]\<rparr>"] e run
  have "map fst (speakers_map (three_items\<lparr>speakers_map := [(''s1'', 0), (''s2'', 1)]\<rparr>))
      = rev (remdups (rev (map last (items three_items))))"
    and "distinct (map snd (speakers_map (three_items\<lparr>speakers_map := [(''s1'', 0), (''s2'', 1)]\<rparr>)))"
    by blast+
  then show ?thesis using e run names by simp
qed

section \<open>Manifest lines and items\<close>

lemma slice_from_end_suffix:
  "e \<noteq> [] \<Longrightarrow> (slice_from_end p (length e) = e) = suffix e p"
proof
  assume e: "e \<noteq> []" and "slice_from_end p (length e) = e"
  then have "drop (length p - length e) p = e" by (simp add: slice_from_end_def)
  then show "suffix e p" by (metis suffix_drop)
next
  assume e: "e \<noteq> []" and "suffix e p"
  then obtain zs where "p = zs @ e" by (auto simp: suffix_def)
  with e show "slice_from_end p (length e) = e" by (simp add: slice_from_end_def)
qed

lemma append_extension:
  "(if slice_from_end p (length e) \<noteq> e then p @ e else p) = (if suffix e p then p else p @ e)"
  by (cases "e = []") (simp_all add: slice_from_end_suffix)

lemma parse_line_fields:
  assumes "delimiter self \<noteq> []"
    and "3 \<le> length (split_loop (delimiter self) (strip line))"
  shows "parse_line self line =
     (let parts = split_loop (delimiter self) (strip line);
          joined = path_join (root_dir self) (parts ! 0)
      in Inr [parts ! 1,
              if suffix (f_extension self) joined then joined else joined @ f_extension self,
              parts ! 2])"
  using assms
  by (auto simp: parse_line_def py_split_def py_index_def pos_file_def pos_text_def
      pos_speaker_name_def Let_def append_extension)

lemma parse_line_short:
  assumes "delimiter self \<noteq> []"
    and "length (split_loop (delimiter self) (strip line)) < 3"
  shows "parse_line self line = Inl IndexError"
  using assms
  by (auto simp: parse_line_def py_split_def py_index_def pos_file_def pos_text_def
      pos_speaker_name_def Let_def)

lemma parse_line_items [simp]: "parse_line (self\<lparr>items := x\<rparr>) line = parse_line self line"
  by (simp add: parse_line_def Let_def split: sum.splits)

lemma items_loop_result:
  "items_loop self ls = Inr st \<Longrightarrow>
   \<exists>its. st = self\<lparr>items := items self @ its\<rparr> \<and> map Inr its = map (parse_line self) ls"
proof (induction ls arbitrary: self)
  case Nil
  then show ?case by simp
next
  case (Cons l ls)
  from Cons.prems obtain it where it: "parse_line self l = Inr it"
    and rest: "items_loop (self\<lparr>items := items self @ [it]\<rparr>) ls = Inr st"
    by (auto split: sum.splits)
  from Cons.IH[OF rest] obtain its where
    "st = self\<lparr>items := items self @ [it] @ its\<rparr>" "map Inr its = map (parse_line self) ls"
    by auto
  with it show ?case by (intro exI[of _ "it # its"]) simp
qed

lemma items_loop_returns:
  "\<forall>l \<in> set ls. \<exists>it. parse_line self l = Inr it \<Longrightarrow> \<exists>st. items_loop self ls = Inr st"
proof (induction ls arbitrary: self)
  case Nil
  then show ?case by simp
next
  case (Cons l ls)
  then obtain it where it: "parse_line self l = Inr it" by auto
  from Cons.prems have "\<forall>l \<in> set ls. \<exists>i. parse_line (self\<lparr>items := items self @ [it]\<rparr>) l = Inr i"
    by simp
  from Cons.IH[OF this] show ?case by (simp add: it)
qed

lemma items_loop_raises:
  "\<forall>l \<in> set ls. parse_line self l = Inl e \<or> (\<exists>it. parse_line self l = Inr it) \<Longrightarrow>
   \<exists>l \<in> set ls. parse_line self l = Inl e \<Longrightarrow> items_loop self ls = Inl e"
proof (induction ls arbitrary: self)
  case Nil
  then show ?case by simp
next
  case (Cons l ls)
  show ?case
  proof (cases "parse_line self l")
    case (Inl e')
    with Cons.prems(1) show ?thesis by auto
  next
    case (Inr it)
    with Cons.prems have "\<exists>l \<in> set ls. parse_line (self\<lparr>items := items self @ [it]\<rparr>) l = Inl e"
      and "\<forall>l \<in> set ls. parse_line (self\<lparr>items := items self @ [it]\<rparr>) l = Inl e \<or>
             (\<exists>i. parse_line (self\<lparr>items := items self @ [it]\<rparr>) l = Inr i)"
      by auto
    from Cons.IH[OF this(2,1)] Inr show ?thesis by simp
  qed
qed

lemma strip_blank: "\<forall>c \<in> set l. is_space c \<Longrightarrow> strip l = []"
proof -
  assume "\<forall>c \<in> set l. is_space c"
  then have "dropWhile is_space l = []" by (simp add: dropWhile_eq_Nil_conv)
  then show ?thesis unfolding strip_def by (simp only: rev.simps dropWhile.simps)
qed

text \<open>
  Claim C7. With \<^verbatim>\<open>root_dir="/data"\<close> and the default delimiter and extension, the line
  \<^verbatim>\<open>wav001|hello world|spk1\<close> yields the item
  \<^verbatim>\<open>["hello world", "/data/wav001.wav", "spk1"]\<close>, and so does the line that names the file
  \<^verbatim>\<open>wav001.wav\<close>. Construction from the example manifest leaves exactly this item, and
  \<^verbatim>\<open>spk1\<close> has speaker id 0. In general a line with at least three fields yields the
  text of field 1, the path of field 0 joined to \<open>root_dir\<close> with the extension appended
  unless the path already ends with it, and the speaker of field 2; and, starting from
  an empty \<open>speakers_map\<close>, the speakers are numbered 0, 1, 2, ... in the order in which
  they first occur.
\<close>

theorem example_line_item_and_first_speaker:
  "parse_line (new_instance ''/data'' syms) ''wav001|hello world|spk1'' =
     Inr [''hello world'', ''/data/wav001.wav'', ''spk1''] \<and>
   parse_line (new_instance ''/data'' syms) ''wav001.wav|hello world|spk1'' =
     Inr [''hello world'', ''/data/wav001.wav'', ''spk1''] \<and>
   map_sum id snd (post_init (manifest_fs example_line) (new_instance ''/data'' [''a'', ''b'', ''c'']))
     = Inr example_instance \<and>
   items example_instance = [[''hello world'', ''/data/wav001.wav'', ''spk1'']] \<and>
   get_speaker_id example_instance ''spk1'' = Inr 0 \<and>
   (delimiter self \<noteq> [] \<and> 3 \<le> length (split_loop (delimiter self) (strip line)) \<longrightarrow>
      parse_line self line =
        (let parts = split_loop (delimiter self) (strip line);
             joined = path_join (root_dir self) (parts ! 0)
         in Inr [parts ! 1,
                 if suffix (f_extension self) joined then joined else joined @ f_extension self,
                 parts ! 2])) \<and>
   (speakers_map self = [] \<and> create_speaker_map self = Inr st \<longrightarrow>
      map fst (speakers_map st) = rev (remdups (rev (map last (items self)))) \<and>
      map snd (speakers_map st) = map int [0..<length (speakers_map st)])"
proof (intro conjI impI)
  show "parse_line (new_instance ''/data'' syms) ''wav001|hello world|spk1'' =
     Inr [''hello world'', ''/data/wav001.wav'', ''spk1'']"
    by code_simp
  show "parse_line (new_instance ''/data'' syms) ''wav001.wav|hello world|spk1'' =
     Inr [''hello world'', ''/data/wav001.wav'', ''spk1'']"
    by code_simp
  show "map_sum id snd (post_init (manifest_fs example_line) (new_instance ''/data'' [''a'', ''b'', ''c'']))
     = Inr example_instance"
    by code_simp
  show "items example_instance = [[''hello world'', ''/data/wav001.wav'', ''spk1'']]"
    by code_simp
  show "get_speaker_id example_instance ''spk1'' = Inr 0"
    by code_simp
next
  assume "delimiter self \<noteq> [] \<and> 3 \<le> length (split_loop (delimiter self) (strip line))"
  then show "parse_line self line =
        (let parts = split_loop (delimiter self) (strip line);
             joined = path_join (root_dir self) (parts ! 0)
         in Inr [parts ! 1,
                 if suffix (f_extension self) joined then joined else joined @ f_extension self,
                 parts ! 2])"
    by (simp add: parse_line_fields)
next
  assume a: "speakers_map self = [] \<and> create_speaker_map self = Inr st"
  then obtain new where new: "speakers_map st = new"
    "map fst new = rev (remdups (rev (map last (items self))))"
    "map snd new = map int [0..<length new]"
    using create_speaker_map_result[of self st] by (auto simp: dict_contains_def)
  show "map fst (speakers_map st) = rev (remdups (rev (map last (items self))))"
    by (simp add: new)
  show "map snd (speakers_map st) = map int [0..<length (speakers_map st)]"
    using new by simp
qed

theorem example_line_item_and_first_speaker_witness:
  "delimiter (new_instance ''/data'' [''a'']) \<noteq> [] \<and>
   3 \<le> length (split_loop (delimiter (new_instance ''/data'' [''a''])) (strip example_line)) \<and>
   parse_line (new_instance ''/data'' [''a'']) example_line =
     Inr [''hello world'', ''/data/wav001.wav'', ''spk1''] \<and>
   speakers_map three_items = [] \<and>
   create_speaker_map three_items = Inr (three_items\<lparr>speakers_map := [(''s1'', 0), (''s2'', 1)]\<rparr>) \<and>
   rev (remdups (rev (map last (items three_items)))) = map fst [(''s1'', 0::int), (''s2'', 1)]"
proof -
  let ?inst = "new_instance ''/data'' [''a'']"
  let ?st = "three_items\<lparr>speakers_map := [(''s1'', 0), (''s2'', 1)]\<rparr>"
  have d: "delimiter ?inst \<noteq> []" by code_simp
  have n: "3 \<le> length (split_loop (delimiter ?inst) (strip example_line))" by code_simp
  have e: "speakers_map three_items = []" by code_simp
  have run: "create_speaker_map three_items = Inr ?st" by code_simp
  have p: "parse_line ?inst example_line =
        (let parts = split_loop (delimiter ?inst) (strip example_line);
             joined = path_join (root_dir ?inst) (parts ! 0)
         in Inr [parts ! 1,
                 if suffix (f_extension ?inst) joined then joined else joined @ f_extension ?inst,
                 parts ! 2])"
    using example_line_item_and_first_speaker [of "[''a'']" ?inst example_line] d n by blast
  have v: "(let parts = split_loop (delimiter ?inst) (strip example_line);
             joined = path_join (root_dir ?inst) (parts ! 0)
         in Inr [parts ! 1,
                 if suffix (f_extension ?inst) joined then joined else joined @ f_extension ?inst,
                 parts ! 2]) = (Inr [''hello world'', ''/data/wav001.wav'', ''spk1''] :: error + string list)"
    by code_simp
  have s: "map fst (speakers_map ?st) = rev (remdups (rev (map last (items three_items))))"
    using example_line_item_and_first_speaker [of "[''a'']" three_items example_line ?st] e run
    by blast
  show ?thesis using d n p v e run s by simp
qed

text \<open>
  Claim C4, as stated, fails: empty lines are not skipped. The manifest below has the
  well-formed example line followed by an empty line; the loop splits the empty line
  into one field and \<^verbatim>\<open>parts[1]\<close> raises \<open>IndexError\<close>, so construction produces no
  instance.
\<close>

theorem blank_line_raises:
  "file_lines (universal_newlines (example_line @ [CHR 0x0A])) = [example_line, [CHR 0x0A]] \<and>
   parse_line (new_instance ''/data'' [''a'']) example_line =
     Inr [''hello world'', ''/data/wav001.wav'', ''spk1''] \<and>
   create_items (manifest_fs (example_line @ [CHR 0x0A])) (new_instance ''/data'' [''a''])
     = Inl IndexError \<and>
   map_sum id snd (post_init (manifest_fs (example_line @ [CHR 0x0A])) (new_instance ''/data'' [''a'']))
     = Inl IndexError"
  by code_simp

lemma post_init_create_items:
  assumes "post_init fs self = Inr (fs', st)" and "\<not> load_mapper self"
  shows "\<exists>s1. create_items fs self = Inr s1 \<and> items st = items s1"
proof -
  from assms obtain s1 s2 where s1: "create_items fs self = Inr s1"
    and s2: "create_speaker_map s1 = Inr s2"
    and st: "st = create_symbols (s2\<lparr>reverse_speaker :=
                Some (dict_of_pairs (map (\<lambda>(k, v). (v, k)) (speakers_map s2)))\<rparr>)"
    by (auto simp: post_init_def Let_def split: if_splits sum.splits)
  from s2 obtain sm where "s2 = s1\<lparr>speakers_map := sm\<rparr>"
    by (auto simp: create_speaker_map_def split: sum.splits)
  with s1 st show ?thesis by (simp add: create_symbols_def Let_def)
qed

text \<open>
  Claim C4, amended. When the delimiter is not empty and every line of the manifest,
  stripped and split on the delimiter, has at least three fields, \<open>create_items\<close>
  appends one item per line to \<open>items\<close>, in file order: the i-th new item is what
  \<open>parse_line\<close> yields for the i-th line. When some line has fewer than three fields
  \<open>create_items\<close> raises \<open>IndexError\<close>; a line of whitespace only is such a line.
  Whenever construction from the manifest succeeds, the instance holds the items it was
  given followed by one item per line of the file, in file order.
\<close>

theorem create_items_one_item_per_line:
  assumes "read_lines fs (path_join (root_dir self) (train_f_name self)) = Inr ls"
    and "delimiter self \<noteq> []"
  shows "((\<forall>l \<in> set ls. 3 \<le> length (split_loop (delimiter self) (strip l))) \<longrightarrow>
            (\<exists>its. create_items fs self = Inr (self\<lparr>items := items self @ its\<rparr>) \<and>
                   length its = length ls \<and>
                   map Inr its = map (parse_line self) ls)) \<and>
         ((\<exists>l \<in> set ls. length (split_loop (delimiter self) (strip l)) < 3) \<longrightarrow>
            create_items fs self = Inl IndexError) \<and>
         (\<forall>l. (\<forall>c \<in> set l. is_space c) \<longrightarrow> parse_line self l = Inl IndexError) \<and>
         (post_init fs self = Inr (fs', st) \<and> \<not> load_mapper self \<longrightarrow>
            (\<exists>its. items st = items self @ its \<and>
                   length its = length ls \<and>
                   map Inr its = map (parse_line self) ls))"
proof (intro conjI impI allI)
  assume wf: "\<forall>l \<in> set ls. 3 \<le> length (split_loop (delimiter self) (strip l))"
  then have "\<forall>l \<in> set ls. \<exists>it. parse_line self l = Inr it"
    using assms(2) by (simp add: parse_line_fields Let_def)
  from items_loop_returns[OF this] obtain st where st: "items_loop self ls = Inr st" ..
  from items_loop_result[OF st] obtain its where
    its: "st = self\<lparr>items := items self @ its\<rparr>" "map Inr its = map (parse_line self) ls"
    by auto
  from its(2) have "length its = length ls" by (metis length_map)
  with st its assms(1)
  show "\<exists>its. create_items fs self = Inr (self\<lparr>items := items self @ its\<rparr>) \<and>
                   length its = length ls \<and>
                   map Inr its = map (parse_line self) ls"
    by (auto simp: create_items_def)
next
  assume bad: "\<exists>l \<in> set ls. length (split_loop (delimiter self) (strip l)) < 3"
  have all: "\<forall>l \<in> set ls. parse_line self l = Inl IndexError \<or> (\<exists>it. parse_line self l = Inr it)"
  proof
    fix l assume "l \<in> set ls"
    show "parse_line self l = Inl IndexError \<or> (\<exists>it. parse_line self l = Inr it)"
    proof (cases "length (split_loop (delimiter self) (strip l)) < 3")
      case True
      then show ?thesis using assms(2) by (simp add: parse_line_short)
    next
      case False
      then show ?thesis using assms(2) by (simp add: parse_line_fields Let_def)
    qed
  qed
  from bad obtain l where "l \<in> set ls" "length (split_loop (delimiter self) (strip l)) < 3"
    by blast
  with assms(2) have "\<exists>l \<in> set ls. parse_line self l = Inl IndexError"
    using parse_line_short by blast
  from items_loop_raises[OF all this] assms(1)
  show "create_items fs self = Inl IndexError" by (simp add: create_items_def)
next
  fix l assume "\<forall>c \<in> set l. is_space c"
  then have "strip l = []" by (rule strip_blank)
  then show "parse_line self l = Inl IndexError"
    using assms(2) by (simp add: parse_line_short)
next
  assume "post_init fs self = Inr (fs', st) \<and> \<not> load_mapper self"
  then obtain s1 where s1: "create_items fs self = Inr s1" "items st = items s1"
    using post_init_create_items by blast
  with assms(1) have "items_loop self ls = Inr s1" by (simp add: create_items_def)
  from items_loop_result[OF this] obtain its where
    its: "s1 = self\<lparr>items := items self @ its\<rparr>" "map Inr its = map (parse_line self) ls"
    by auto
  from its(2) have "length its = length ls" by (metis length_map)
  with its s1(2)
  show "\<exists>its. items st = items self @ its \<and> length its = length ls \<and>
                   map Inr its = map (parse_line self) ls"
    by auto
qed

theorem create_items_one_item_per_line_witness:
  "read_lines (manifest_fs two_lines) (path_join ''/data'' ''train.txt'') =
     Inr [example_line, ''wav002.wav|bye|spk2'' @ [CHR 0x0A]] \<and>
   delimiter (new_instance ''/data'' [''a'']) \<noteq> [] \<and>
   3 \<le> length (split_loop ''|'' (strip example_line)) \<and>
   3 \<le> length (split_loop ''|'' (strip (''wav002.wav|bye|spk2'' @ [CHR 0x0A]))) \<and>
   create_items (manifest_fs two_lines) (new_instance ''/data'' [''a'']) =
     Inr ((new_instance ''/data'' [''a''])
           \<lparr>items := [[''hello world'', ''/data/wav001.wav'', ''spk1''],
                      [''bye'', ''/data/wav002.wav'', ''spk2'']]\<rparr>) \<and>
   \<not> load_mapper (new_instance ''/data'' [''a'']) \<and>
   map_sum id (items \<circ> snd) (post_init (manifest_fs two_lines) (new_instance ''/data'' [''a''])) =
     Inr [[''hello world'', ''/data/wav001.wav'', ''spk1''],
          [''bye'', ''/data/wav002.wav'', ''spk2'']]"
proof -
  let ?inst = "new_instance ''/data'' [''a'']"
  let ?l2 = "''wav002.wav|bye|spk2'' @ [CHR 0x0A]"
  have r: "read_lines (manifest_fs two_lines) (path_join (root_dir ?inst) (train_f_name ?inst)) =
     Inr [example_line, ?l2]" by code_simp
  have r': "read_lines (manifest_fs two_lines) (path_join ''/data'' ''train.txt'') =
     Inr [example_line, ?l2]" by code_simp
  have d: "delimiter ?inst \<noteq> []" by code_simp
  have w1: "3 \<le> length (split_loop ''|'' (strip example_line))" by code_simp
  have w2: "3 \<le> length (split_loop ''|'' (strip ?l2))" by code_simp
  have dl: "delimiter ?inst = ''|''" by code_simp
  have wf: "\<forall>l \<in> set [example_line, ?l2]. 3 \<le> length (split_loop (delimiter ?inst) (strip l))"
    using w1 w2 by (simp add: dl)
  from create_items_one_item_per_line [OF r d] wf
  obtain its where its: "create_items (manifest_fs two_lines) ?inst = Inr (?inst\<lparr>items := items ?inst @ its\<rparr>)"
    "map Inr its = map (parse_line ?inst) [example_line, ?l2]"
    by blast
  have p: "map (parse_line ?inst) [example_line, ?l2] =
     map Inr [[''hello world'', ''/data/wav001.wav'', ''spk1''], [''bye'', ''/data/wav002.wav'', ''spk2'']]"
    by code_simp
  from its(2) p have "its = [[''hello world'', ''/data/wav001.wav'', ''spk1''], [''bye'', ''/data/wav002.wav'', ''spk2'']]"
    by (metis inj_Inr inj_map_eq_map)
  moreover have "items ?inst = []" by code_simp
  moreover have "\<not> load_mapper ?inst" by code_simp
  moreover have "map_sum id (items \<circ> snd) (post_init (manifest_fs two_lines) ?inst) =
     Inr [[''hello world'', ''/data/wav001.wav'', ''spk1''],
          [''bye'', ''/data/wav002.wav'', ''spk2'']]" by code_simp
  ultimately show ?thesis using its(1) r' d w1 w2 by simp
qed

section \<open>The symbol table after construction\<close>

lemma items_loop_fields:
  "items_loop self ls = Inr st \<Longrightarrow> \<exists>its. st = self\<lparr>items := its\<rparr>"
  using items_loop_result[of self ls st] by auto

lemma post_init_manifest_path:
  assumes "post_init fs self = Inr (fs', st)" and "\<not> load_mapper self"
  shows "symbols self \<noteq> [] \<and>
         (\<exists>its sm. st = create_symbols
            (self\<lparr>items := its, speakers_map := sm,
                  reverse_speaker := Some (dict_of_pairs (map (\<lambda>(k, v). (v, k)) sm))\<rparr>))"
proof -
  from assms have ne: "symbols self \<noteq> []"
    by (auto simp: post_init_def split: if_splits)
  from assms ne obtain s1 s2 where s1: "create_items fs self = Inr s1"
    and s2: "create_speaker_map s1 = Inr s2"
    and st: "st = create_symbols (s2\<lparr>reverse_speaker :=
                Some (dict_of_pairs (map (\<lambda>(k, v). (v, k)) (speakers_map s2)))\<rparr>)"
    by (auto simp: post_init_def Let_def split: if_splits sum.splits)
  from s1 obtain its where its: "s1 = self\<lparr>items := its\<rparr>"
    by (auto simp: create_items_def split: sum.splits dest: items_loop_fields)
  from s2 obtain sm where sm: "s2 = s1\<lparr>speakers_map := sm\<rparr>"
    by (auto simp: create_speaker_map_def split: sum.splits)
  show ?thesis using ne st its sm by auto
qed

lemma enumerate_py_swap:
  "map (\<lambda>(i, s). (s, i)) (enumerate_py xs) = zip xs (map int [0..<length xs])"
  unfolding enumerate_py_def by (subst zip_commute) (simp add: case_prod_unfold comp_def)

lemma create_symbols_distinct:
  assumes "distinct (symbols self @ map snd extra_tokens)"
  defines "syms \<equiv> symbols self @ map snd extra_tokens"
  shows "symbols (create_symbols self) = syms"
    and "symbol_to_id (create_symbols self) = zip syms (map int [0..<length syms])"
    and "id_to_symbol (create_symbols self) = zip (map int [0..<length syms]) syms"
proof -
  show "symbols (create_symbols self) = syms"
    by (simp add: create_symbols_def syms_def Let_def)
  have "distinct (map fst (zip syms (map int [0..<length syms])))"
    using assms by (simp add: syms_def)
  then show "symbol_to_id (create_symbols self) = zip syms (map int [0..<length syms])"
    by (simp add: create_symbols_def Let_def enumerate_py_swap dict_of_pairs_distinct
        flip: syms_def)
  have "distinct (map fst (zip (map int [0..<length syms]) syms))"
    by (simp add: distinct_map)
  then show "id_to_symbol (create_symbols self) = zip (map int [0..<length syms]) syms"
    by (simp add: create_symbols_def Let_def enumerate_py_def dict_of_pairs_distinct
        flip: syms_def)
qed

lemma dict_get_zip_nth:
  "distinct xs \<Longrightarrow> length xs = length ys \<Longrightarrow> i < length xs \<Longrightarrow>
   dict_get (zip xs ys) (xs ! i) = Inr (ys ! i)"
  by (simp add: dict_get_def map_of_zip_nth)

lemma dict_get_iff_mem:
  assumes "distinct (map fst d)"
  shows "(dict_get d k = Inr v) = ((k, v) \<in> set d)"
proof -
  have "(dict_get d k = Inr v) = (map_of d k = Some v)"
    by (simp add: dict_get_def split: option.splits)
  then show ?thesis using assms by simp
qed

lemma zip_mem_commute: "((x, y) \<in> set (zip xs ys)) = ((y, x) \<in> set (zip ys xs))"
  by (auto simp: in_set_zip)

text \<open>
  Claim C3, amended. When construction from the manifest succeeds and the symbols list
  followed by the four reserved tokens has no repeated element, the table has
  \<open>length symbols + 4\<close> entries; \<^verbatim>\<open>[UNK]\<close>, \<^verbatim>\<open>[PAD]\<close>, \<^verbatim>\<open>[EOS]\<close>, \<^verbatim>\<open>[BOS]\<close> hold the last four
  ids in this order; the symbol at position \<open>i\<close> has id \<open>i\<close> and id \<open>i\<close> names it;
  \<open>symbol_to_id\<close> and \<open>id_to_symbol\<close> are inverse to each other; and every id below the
  size belongs to exactly one symbol. The symbols list is not empty, since construction
  succeeded. For \<^verbatim>\<open>symbols=["a","b","c"]\<close> the table is
  \<^verbatim>\<open>{"a":0,"b":1,"c":2,"[UNK]":3,"[PAD]":4,"[EOS]":5,"[BOS]":6}\<close>.
\<close>

theorem symbol_table_of_distinct_symbols:
  assumes "post_init fs self = Inr (fs', st)"
    and "\<not> load_mapper self"
    and "distinct (symbols self @ map snd extra_tokens)"
  shows "symbols self \<noteq> [] \<and>
    symbols st = symbols self @ [''[UNK]'', ''[PAD]'', ''[EOS]'', ''[BOS]''] \<and>
    length (symbol_to_id st) = length (symbols self) + 4 \<and>
    dict_get (symbol_to_id st) ''[UNK]'' = Inr (int (length (symbols self))) \<and>
    dict_get (symbol_to_id st) ''[PAD]'' = Inr (int (length (symbols self)) + 1) \<and>
    dict_get (symbol_to_id st) ''[EOS]'' = Inr (int (length (symbols self)) + 2) \<and>
    dict_get (symbol_to_id st) ''[BOS]'' = Inr (int (length (symbols self)) + 3) \<and>
    (\<forall>i < length (symbols st).
        dict_get (id_to_symbol st) (int i) = Inr (symbols st ! i) \<and>
        dict_get (symbol_to_id st) (symbols st ! i) = Inr (int i)) \<and>
    (\<forall>s i. (dict_get (symbol_to_id st) s = Inr i) = (dict_get (id_to_symbol st) i = Inr s)) \<and>
    (\<forall>i. 0 \<le> i \<and> i < int (length (symbol_to_id st)) \<longrightarrow>
        (\<exists>!s. dict_get (symbol_to_id st) s = Inr i)) \<and>
    map_sum id (symbol_to_id \<circ> snd)
      (post_init (manifest_fs example_line) (new_instance ''/data'' [''a'', ''b'', ''c''])) =
      Inr [(''a'', 0), (''b'', 1), (''c'', 2), (''[UNK]'', 3), (''[PAD]'', 4), (''[EOS]'', 5),
           (''[BOS]'', 6)]"
proof -
  define n where "n = length (symbols self)"
  define syms where "syms = symbols self @ map snd extra_tokens"
  define ids where "ids = map int [0..<length syms]"
  from post_init_manifest_path[OF assms(1,2)] obtain its sm where
    ne: "symbols self \<noteq> []" and
    st: "st = create_symbols (self\<lparr>items := its, speakers_map := sm,
            reverse_speaker := Some (dict_of_pairs (map (\<lambda>(k, v). (v, k)) sm))\<rparr>)"
    by blast
  let ?s3 = "self\<lparr>items := its, speakers_map := sm,
            reverse_speaker := Some (dict_of_pairs (map (\<lambda>(k, v). (v, k)) sm))\<rparr>"
  have d3: "distinct (symbols ?s3 @ map snd extra_tokens)" using assms(3) by simp
  have sy: "symbols st = syms"
    and s2i: "symbol_to_id st = zip syms ids"
    and i2s: "id_to_symbol st = zip ids syms"
    using create_symbols_distinct[OF d3] by (simp_all add: st syms_def ids_def)
  have dist: "distinct syms" using assms(3) by (simp add: syms_def)
  have len: "length syms = n + 4" "length ids = n + 4"
    by (simp_all add: syms_def ids_def n_def extra_tokens_def)
  have dids: "distinct ids" by (simp add: ids_def distinct_map)
  have idn: "\<And>i. i < n + 4 \<Longrightarrow> ids ! i = int i" using len by (simp add: ids_def)
  have syms_eq: "syms = symbols self @ [''[UNK]'', ''[PAD]'', ''[EOS]'', ''[BOS]'']"
    by (simp add: syms_def extra_tokens_def)
  have fwd: "\<And>i. i < n + 4 \<Longrightarrow> dict_get (zip syms ids) (syms ! i) = Inr (int i)"
    using dict_get_zip_nth[OF dist, of ids] len idn by simp
  have bwd: "\<And>i. i < n + 4 \<Longrightarrow> dict_get (zip ids syms) (int i) = Inr (syms ! i)"
  proof -
    fix i assume i: "i < n + 4"
    from dict_get_zip_nth[OF dids, of syms i] len i
    have "dict_get (zip ids syms) (ids ! i) = Inr (syms ! i)" by simp
    with idn[OF i] show "dict_get (zip ids syms) (int i) = Inr (syms ! i)" by simp
  qed
  have unk: "syms ! n = ''[UNK]''" and pad: "syms ! (n + 1) = ''[PAD]''"
    and eos: "syms ! (n + 2) = ''[EOS]''" and bos: "syms ! (n + 3) = ''[BOS]''"
    by (simp_all add: syms_eq n_def nth_append)
  have c_unk: "dict_get (symbol_to_id st) ''[UNK]'' = Inr (int n)"
    using fwd[of n] unk by (simp add: s2i)
  have c_pad: "dict_get (symbol_to_id st) ''[PAD]'' = Inr (int n + 1)"
    using fwd[of "n + 1"] pad by (simp add: s2i)
  have c_eos: "dict_get (symbol_to_id st) ''[EOS]'' = Inr (int n + 2)"
    using fwd[of "n + 2"] eos by (simp add: s2i)
  have c_bos: "dict_get (symbol_to_id st) ''[BOS]'' = Inr (int n + 3)"
    using fwd[of "n + 3"] bos by (simp add: s2i)
  have c_idx: "\<forall>i < length (symbols st).
        dict_get (id_to_symbol st) (int i) = Inr (symbols st ! i) \<and>
        dict_get (symbol_to_id st) (symbols st ! i) = Inr (int i)"
    using fwd bwd len by (simp add: sy s2i i2s)
  have c_inv: "\<forall>s i. (dict_get (symbol_to_id st) s = Inr i) = (dict_get (id_to_symbol st) i = Inr s)"
  proof (intro allI)
    fix s i
    have a: "(dict_get (zip syms ids) s = Inr i) = ((s, i) \<in> set (zip syms ids))"
      using dist len by (simp add: dict_get_iff_mem)
    have b: "(dict_get (zip ids syms) i = Inr s) = ((i, s) \<in> set (zip ids syms))"
      using dids len by (simp add: dict_get_iff_mem)
    show "(dict_get (symbol_to_id st) s = Inr i) = (dict_get (id_to_symbol st) i = Inr s)"
      unfolding s2i i2s a b by (rule zip_mem_commute)
  qed
  have c_one: "\<forall>i. 0 \<le> i \<and> i < int (length (symbol_to_id st)) \<longrightarrow>
        (\<exists>!s. dict_get (symbol_to_id st) s = Inr i)"
  proof (intro allI impI)
    fix i :: int assume i: "0 \<le> i \<and> i < int (length (symbol_to_id st))"
    then have "nat i < n + 4" using len by (simp add: s2i) linarith
    from bwd[OF this] i have "dict_get (id_to_symbol st) i = Inr (syms ! nat i)"
      by (simp add: i2s)
    with c_inv show "\<exists>!s. dict_get (symbol_to_id st) s = Inr i" by auto
  qed
  have c_len: "length (symbol_to_id st) = length (symbols self) + 4"
    using len by (simp add: s2i n_def)
  have c_ex: "map_sum id (symbol_to_id \<circ> snd)
      (post_init (manifest_fs example_line) (new_instance ''/data'' [''a'', ''b'', ''c''])) =
      Inr [(''a'', 0), (''b'', 1), (''c'', 2), (''[UNK]'', 3), (''[PAD]'', 4), (''[EOS]'', 5),
           (''[BOS]'', 6)]"
    by code_simp
  have c_sy: "symbols st = symbols self @ [''[UNK]'', ''[PAD]'', ''[EOS]'', ''[BOS]'']"
    using sy syms_eq by simp
  note ids = c_unk[unfolded n_def] c_pad[unfolded n_def] c_eos[unfolded n_def]
    c_bos[unfolded n_def]
  show ?thesis
    by (intro conjI ne c_sy c_len ids c_idx c_inv c_one c_ex)
qed

theorem symbol_table_of_distinct_symbols_witness:
  "map_sum id snd (post_init (manifest_fs example_line) (new_instance ''/data'' [''a'', ''b'', ''c'']))
     = Inr example_instance \<and>
   \<not> load_mapper (new_instance ''/data'' [''a'', ''b'', ''c'']) \<and>
   distinct (symbols (new_instance ''/data'' [''a'', ''b'', ''c'']) @ map snd extra_tokens) \<and>
   length (symbol_to_id example_instance) = 3 + 4 \<and>
   dict_get (symbol_to_id example_instance) ''[UNK]'' = Inr 3 \<and>
   dict_get (symbol_to_id example_instance) ''[BOS]'' = Inr 6"
proof -
  let ?inst = "new_instance ''/data'' [''a'', ''b'', ''c'']"
  have run: "map_sum id snd (post_init (manifest_fs example_line) ?inst) = Inr example_instance"
    by code_simp
  then obtain fs' where r: "post_init (manifest_fs example_line) ?inst = Inr (fs', example_instance)"
    by (cases "post_init (manifest_fs example_line) ?inst") auto
  have l: "\<not> load_mapper ?inst" by code_simp
  have d: "distinct (symbols ?inst @ map snd extra_tokens)" by code_simp
  have n: "length (symbols ?inst) = 3" by code_simp
  from symbol_table_of_distinct_symbols[OF r l d] n
  have "length (symbol_to_id example_instance) = 3 + 4"
    and "dict_get (symbol_to_id example_instance) ''[UNK]'' = Inr 3"
    and "dict_get (symbol_to_id example_instance) ''[BOS]'' = Inr 6"
    by simp_all
  with run l d show ?thesis by simp
qed

text \<open>
  Claim C3, as stated for every non-empty symbols list, fails when a symbol is repeated:
  for \<^verbatim>\<open>symbols=["a","a"]\<close> the dict comprehension keeps one entry for \<^verbatim>\<open>"a"\<close>, so
  \<open>symbol_to_id\<close> has 5 entries and not 2 + 4, id 0 belongs to no symbol, and
  \<open>id_to_symbol\<close> maps both 0 and 1 to \<^verbatim>\<open>"a"\<close>.
\<close>

theorem duplicate_symbols_shrink_table:
  "map_sum id (symbol_to_id \<circ> snd)
     (post_init (manifest_fs example_line) (new_instance ''/data'' [''a'', ''a''])) =
     Inr [(''a'', 1), (''[UNK]'', 2), (''[PAD]'', 3), (''[EOS]'', 4), (''[BOS]'', 5)] \<and>
   map_sum id (id_to_symbol \<circ> snd)
     (post_init (manifest_fs example_line) (new_instance ''/data'' [''a'', ''a''])) =
     Inr [(0, ''a''), (1, ''a''), (2, ''[UNK]''), (3, ''[PAD]''), (4, ''[EOS]''), (5, ''[BOS]'')] \<and>
   map_sum id (length \<circ> symbol_to_id \<circ> snd)
     (post_init (manifest_fs example_line) (new_instance ''/data'' [''a'', ''a''])) = Inr 5 \<and>
   length [''a'', ''a''] + 4 = (6::nat)"
  by code_simp

section \<open>Attribute access to the reserved tokens\<close>

lemma starts_with_append: "starts_with s p \<Longrightarrow> s = p @ drop (length p) s"
  by (metis append_take_drop_id starts_with_def)

lemma contains_split_loop:
  "contains s sep \<Longrightarrow> sep \<noteq> [] \<Longrightarrow>
   \<exists>p ps rest. split_loop sep s = p # ps \<and> s = p @ sep @ rest"
proof (induction s)
  case Nil
  then show ?case by simp
next
  case (Cons c cs)
  show ?case
  proof (cases "starts_with (c # cs) sep")
    case True
    with Cons.prems(2) have "split_loop sep (c # cs) = [] # split_loop sep (drop (length sep) (c # cs))"
      by simp
    moreover from starts_with_append[OF True] have "c # cs = [] @ sep @ drop (length sep) (c # cs)"
      by simp
    ultimately show ?thesis by blast
  next
    case False
    with Cons.prems have "contains cs sep" by simp
    from Cons.IH[OF this Cons.prems(2)] obtain p ps rest where
      "split_loop sep cs = p # ps" "cs = p @ sep @ rest" by blast
    with False have "split_loop sep (c # cs) = (c # p) # ps" "c # cs = (c # p) @ sep @ rest"
      by simp_all
    then show ?thesis by blast
  qed
qed

lemma split_loop_not_Nil: "split_loop sep s \<noteq> []"
  by (induction s) (auto split: list.splits)

lemma extra_tokens_keys:
  "(dict_get extra_tokens k = Inr tok) =
   ((k, tok) \<in> {(''unk'', ''[UNK]''), (''pad'', ''[PAD]''), (''eos'', ''[EOS]''), (''bos'', ''[BOS]'')})"
  by (auto simp: dict_get_def extra_tokens_def split: if_splits)

lemma getattr_token:
  "dict_get extra_tokens k = Inr tok \<Longrightarrow> getattr self k = Inr (PStr tok)"
  by (auto simp: extra_tokens_keys getattr_def starts_with_def)
    (simp_all add: dict_get_def extra_tokens_def)

lemma getattr_token_id:
  "dict_get extra_tokens k = Inr tok \<Longrightarrow>
   getattr self (k @ ''_id'' @ rest) =
     (case dict_get (symbol_to_id self) tok of Inl e \<Rightarrow> Inl e | Inr i \<Rightarrow> Inr (PInt i))"
  by (auto simp: extra_tokens_keys getattr_def starts_with_def py_split_def py_index_def)
    (simp_all add: dict_get_def extra_tokens_def)

lemma getattr_returns:
  assumes "getattr self name = Inr v"
  shows "\<exists>k tok. dict_get extra_tokens k = Inr tok \<and>
           (name = k \<and> v = PStr tok \<or>
            (\<exists>rest i. name = k @ ''_id'' @ rest \<and>
                      dict_get (symbol_to_id self) tok = Inr i \<and> v = PInt i))"
proof (cases "contains name ''_id''")
  case False
  with assms show ?thesis
    by (auto simp: getattr_def split: sum.splits)
next
  case True
  from contains_split_loop[OF True] obtain p ps rest where
    sp: "split_loop ''_id'' name = p # ps" and name: "name = p @ ''_id'' @ rest" by auto
  from assms True sp obtain tok i where "dict_get extra_tokens p = Inr tok"
    "dict_get (symbol_to_id self) tok = Inr i" "v = PInt i"
    by (auto simp: getattr_def py_split_def py_index_def split: sum.splits)
  with name show ?thesis by blast
qed

lemma getattr_raises: "getattr self name = Inl e \<Longrightarrow> e = KeyError"
  using split_loop_not_Nil[of "''_id''" name]
  by (auto simp: getattr_def py_split_def py_index_def dict_get_def
      split: sum.splits if_splits option.splits)

lemma create_symbols_has_tokens:
  assumes "dict_get extra_tokens k = Inr tok"
  shows "\<exists>i. dict_get (symbol_to_id (create_symbols s)) tok = Inr i"
proof -
  let ?syms = "symbols s @ map snd extra_tokens"
  let ?kvs = "map (\<lambda>(i, x). (x, i)) (enumerate_py ?syms)"
  from assms have "tok \<in> set ?syms"
    by (auto simp: extra_tokens_keys) (simp_all add: extra_tokens_def)
  moreover have "map fst ?kvs = ?syms"
    by (simp only: enumerate_py_swap) simp
  ultimately have "tok \<in> fst ` set (rev ?kvs)"
    by (metis set_map set_rev)
  then have "map_of (rev ?kvs) tok \<noteq> None"
    by (simp only: map_of_eq_None_iff not_not)
  then show ?thesis
    by (auto simp: create_symbols_def Let_def dict_get_def map_of_dict_of_pairs
        split: option.splits)
qed

text \<open>
  Claim C9, amended. \<open>extra_tokens\<close> names four tokens: \<^verbatim>\<open>unk\<close>, \<^verbatim>\<open>pad\<close>, \<^verbatim>\<open>eos\<close>, \<^verbatim>\<open>bos\<close>.
  For each of them \<^verbatim>\<open>__getattr__\<close> answers the bare name with the token's string, and the
  name followed by \<^verbatim>\<open>_id\<close> and any further text with the id that \<open>symbol_to_id\<close> holds for
  the token (a \<open>KeyError\<close> when it holds none). After construction from a manifest the
  table holds every token, so the name with the suffix \<^verbatim>\<open>_id\<close> returns its id. Whatever
  \<^verbatim>\<open>__getattr__\<close> returns is one of these: the name is a token name and the value its
  string, or the name starts with a token name followed by \<^verbatim>\<open>_id\<close> and the value is that
  token's id. Every other name raises \<open>KeyError\<close>.
\<close>

theorem reserved_token_attributes:
  "extra_tokens =
     [(''unk'', ''[UNK]''), (''pad'', ''[PAD]''), (''eos'', ''[EOS]''), (''bos'', ''[BOS]'')] \<and>
   (dict_get extra_tokens k = Inr tok \<longrightarrow>
      getattr self k = Inr (PStr tok) \<and>
      getattr self (k @ ''_id'' @ rest) =
        (case dict_get (symbol_to_id self) tok of Inl e \<Rightarrow> Inl e | Inr i \<Rightarrow> Inr (PInt i))) \<and>
   (dict_get extra_tokens k = Inr tok \<and> post_init fs inst = Inr (fs', self) \<and>
    \<not> load_mapper inst \<longrightarrow>
      (\<exists>i. dict_get (symbol_to_id self) tok = Inr i \<and>
           getattr self (k @ ''_id'') = Inr (PInt i))) \<and>
   (getattr self name = Inr v \<longrightarrow>
      (\<exists>k tok. dict_get extra_tokens k = Inr tok \<and>
         (name = k \<and> v = PStr tok \<or>
          (\<exists>rest i. name = k @ ''_id'' @ rest \<and>
                    dict_get (symbol_to_id self) tok = Inr i \<and> v = PInt i)))) \<and>
   (getattr self name = Inl e \<longrightarrow> e = KeyError)"
proof (intro conjI impI)
  show "extra_tokens =
     [(''unk'', ''[UNK]''), (''pad'', ''[PAD]''), (''eos'', ''[EOS]''), (''bos'', ''[BOS]'')]"
    by (simp add: extra_tokens_def)
next
  assume "dict_get extra_tokens k = Inr tok"
  then show "getattr self k = Inr (PStr tok)" by (rule getattr_token)
next
  assume "dict_get extra_tokens k = Inr tok"
  then show "getattr self (k @ ''_id'' @ rest) =
        (case dict_get (symbol_to_id self) tok of Inl e \<Rightarrow> Inl e | Inr i \<Rightarrow> Inr (PInt i))"
    by (rule getattr_token_id)
next
  assume a: "dict_get extra_tokens k = Inr tok \<and> post_init fs inst = Inr (fs', self) \<and>
    \<not> load_mapper inst"
  then obtain s3 where "self = create_symbols s3"
    using post_init_manifest_path[of fs inst fs' self] by blast
  with a create_symbols_has_tokens[of k tok s3]
  obtain i where i: "dict_get (symbol_to_id self) tok = Inr i" by blast
  from a getattr_token_id[of k tok self "[]"] i
  have "getattr self (k @ ''_id'') = Inr (PInt i)" by simp
  with i show "\<exists>i. dict_get (symbol_to_id self) tok = Inr i \<and>
           getattr self (k @ ''_id'') = Inr (PInt i)" by blast
next
  assume "getattr self name = Inr v"
  then show "\<exists>k tok. dict_get extra_tokens k = Inr tok \<and>
         (name = k \<and> v = PStr tok \<or>
          (\<exists>rest i. name = k @ ''_id'' @ rest \<and>
                    dict_get (symbol_to_id self) tok = Inr i \<and> v = PInt i))"
    by (rule getattr_returns)
next
  assume "getattr self name = Inl e"
  then show "e = KeyError" by (rule getattr_raises)
qed

theorem reserved_token_attributes_witness:
  "dict_get extra_tokens ''pad'' = Inr ''[PAD]'' \<and>
   map_sum id snd (post_init (manifest_fs example_line) (new_instance ''/data'' [''a'', ''b'', ''c'']))
     = Inr example_instance \<and>
   \<not> load_mapper (new_instance ''/data'' [''a'', ''b'', ''c'']) \<and>
   getattr example_instance ''pad'' = Inr (PStr ''[PAD]'') \<and>
   getattr example_instance ''pad_id'' = Inr (PInt 4) \<and>
   getattr example_instance ''root'' = Inl KeyError"
proof -
  let ?inst = "new_instance ''/data'' [''a'', ''b'', ''c'']"
  have k: "dict_get extra_tokens ''pad'' = Inr ''[PAD]''" by code_simp
  have run: "map_sum id snd (post_init (manifest_fs example_line) ?inst) = Inr example_instance"
    by code_simp
  then obtain fs' where r: "post_init (manifest_fs example_line) ?inst = Inr (fs', example_instance)"
    by (cases "post_init (manifest_fs example_line) ?inst") auto
  have l: "\<not> load_mapper ?inst" by code_simp
  have four: "dict_get (symbol_to_id example_instance) ''[PAD]'' = Inr 4" by code_simp
  note t = reserved_token_attributes
    [of "''pad''" "''[PAD]''" example_instance "[]" "manifest_fs example_line" ?inst fs']
  from t [of "''pad_id''" "PInt 4" KeyError] k
  have 1: "getattr example_instance ''pad'' = Inr (PStr ''[PAD]'')" by blast
  from t [of "''pad_id''" "PInt 4" KeyError] k r l four
  have 2: "getattr example_instance ''pad_id'' = Inr (PInt 4)" by auto
  have 3: "getattr example_instance ''root'' = Inl KeyError" by code_simp
  show ?thesis using k run l 1 2 3 by simp
qed

text \<open>
  Claim C9, as stated, fails in its last part: the dispatch is not confined to the
  eight names. \<^verbatim>\<open>__getattr__\<close> tests \<^verbatim>\<open>"_id" in name\<close> and takes the text before the first
  \<^verbatim>\<open>_id\<close>, so other attribute names such as \<^verbatim>\<open>pad_idx\<close> and \<^verbatim>\<open>unk_identity\<close> are answered
  with a token's id.
\<close>

theorem getattr_answers_other_names:
  "getattr example_instance ''pad_idx'' = Inr (PInt 4) \<and>
   getattr example_instance ''unk_identity'' = Inr (PInt 3) \<and>
   getattr example_instance ''bos_id_of_table'' = Inr (PInt 6)"
  by code_simp

section \<open>Saving and reloading the mappers\<close>

text \<open>
  The two paths name the same file whenever \<open>root_dir\<close> is not empty, \<^verbatim>\<open>int(str(i))\<close> is
  \<open>i\<close>, and the three mappings come back from the snapshot as they were written
  (\<open>mapper_round_trip\<close>).
\<close>

lemma split_loop_char_append:
  "split_loop [c] (a @ c # b) = split_loop [c] a @ split_loop [c] b"
proof (induction a)
  case Nil
  show ?case by (simp add: starts_with_def)
next
  case (Cons x a)
  obtain p ps where sa: "split_loop [c] a = p # ps"
    using split_loop_not_Nil[of "[c]" a] by (cases "split_loop [c] a") auto
  show ?case
    by (cases "x = c") (simp_all add: starts_with_def Cons.IH sa)
qed

lemma split_loop_mapper: "split_loop ''/'' ''mapper.json'' = [''mapper.json'']"
  by code_simp

lemma path_components_save_load:
  assumes "r \<noteq> []"
  shows "path_components (r @ ''/mapper.json'') = path_components (path_join r ''mapper.json'')"
proof (cases "last r = CHR ''/''")
  case False
  with assms show ?thesis by (simp add: path_join_def starts_with_def)
next
  case True
  with assms obtain r' where r: "r = r' @ ''/''"
    by (metis append_butlast_last_id)
  have a: "split_loop ''/'' ((r' @ ''/'') @ CHR ''/'' # ''mapper.json'')
      = split_loop ''/'' (r' @ CHR ''/'' # []) @ [''mapper.json'']"
    by (simp only: split_loop_char_append split_loop_mapper)
  have b: "split_loop ''/'' (r' @ CHR ''/'' # []) = split_loop ''/'' r' @ [[]]"
    by (simp only: split_loop_char_append split_loop.simps)
  have c: "split_loop ''/'' (r' @ CHR ''/'' # ''mapper.json'')
      = split_loop ''/'' r' @ [''mapper.json'']"
    by (simp only: split_loop_char_append split_loop_mapper)
  have "path_components (r @ ''/mapper.json'')
      = filter (\<lambda>c. c \<noteq> [] \<and> c \<noteq> ''.'') (split_loop ''/'' r') @ [''mapper.json'']"
    using a b by (simp add: path_components_def r)
  also have "\<dots> = path_components (r' @ CHR ''/'' # ''mapper.json'')"
    using c by (simp add: path_components_def)
  also have "\<dots> = path_components (path_join r ''mapper.json'')"
    using True assms by (simp add: path_join_def starts_with_def r)
  finally show ?thesis .
qed

lemma starts_with_slash_append: "r \<noteq> [] \<Longrightarrow> starts_with (r @ s) ''/'' = starts_with r ''/''"
  by (cases r) (simp_all add: starts_with_def)

lemma resolve_save_load:
  assumes "r \<noteq> []"
  shows "resolve wd (r @ ''/mapper.json'') = resolve wd (path_join r ''mapper.json'')"
proof -
  have "starts_with (path_join r ''mapper.json'') ''/'' = starts_with r ''/''"
    using assms by (auto simp: path_join_def starts_with_slash_append) (simp add: starts_with_def)
  then show ?thesis
    using assms
    by (simp add: resolve_def path_components_save_load starts_with_slash_append)
qed

lemma last_split_loop_char:
  "last (split_loop [c] (a @ c # b)) = last (split_loop [c] b)"
  by (simp add: split_loop_char_append split_loop_not_Nil)

lemma names_file_save: "names_file (r @ ''/mapper.json'')"
proof -
  have "last (split_loop ''/'' (r @ CHR ''/'' # ''mapper.json'')) = ''mapper.json''"
    by (simp only: last_split_loop_char split_loop_mapper) simp
  then show ?thesis by (simp add: names_file_def)
qed

lemma names_file_load: "names_file (path_join r ''mapper.json'')"
proof (cases "r = [] \<or> last r = CHR ''/''")
  case False
  then show ?thesis using names_file_save[of r] by (simp add: path_join_def starts_with_def)
next
  case True
  show ?thesis
  proof (cases "r = []")
    case True
    have "names_file ''mapper.json''" by code_simp
    with True show ?thesis by (simp add: path_join_def starts_with_def)
  next
    case False
    with True obtain r' where r: "r = r' @ ''/''" by (metis append_butlast_last_id)
    have "last (split_loop ''/'' (r' @ CHR ''/'' # ''mapper.json'')) = ''mapper.json''"
      by (simp only: last_split_loop_char split_loop_mapper) simp
    then show ?thesis using True False by (simp add: names_file_def path_join_def starts_with_def r)
  qed
qed

lemma digit_val_digit_char: "d < 10 \<Longrightarrow> digit_val (digit_char d) = Some d"
  by (simp add: digit_val_def digit_char_def Let_def)

lemma is_space_code:
  "is_space c \<Longrightarrow> (of_char c :: nat) \<in> {9, 10, 11, 12, 13, 28, 29, 30, 31, 32, 133, 160}"
  by (auto simp: is_space_def)

lemma digit_char_not_space: "d < 10 \<Longrightarrow> \<not> is_space (digit_char d)"
proof
  assume d: "d < 10" and "is_space (digit_char d)"
  from is_space_code[OF this(2)] d show False by (simp add: digit_char_def)
qed

lemma str_of_nat_digits: "\<forall>c \<in> set (str_of_nat n). \<exists>d < 10. c = digit_char d"
proof (induction n rule: str_of_nat.induct)
  case (1 n)
  show ?case
  proof (cases "n < 10")
    case True
    then show ?thesis by (subst str_of_nat.simps) auto
  next
    case False
    with 1 have "\<forall>c \<in> set (str_of_nat (n div 10)). \<exists>d < 10. c = digit_char d" by simp
    moreover have "\<exists>d < 10. digit_char (n mod 10) = digit_char d"
      by (rule exI[of _ "n mod 10"]) simp
    ultimately show ?thesis using False
      by (subst str_of_nat.simps) auto
  qed
qed

lemma str_of_nat_not_Nil: "str_of_nat n \<noteq> []"
  by (subst str_of_nat.simps) simp

lemma parse_digits_snoc:
  "\<forall>c \<in> set xs. \<exists>d < 10. c = digit_char d \<Longrightarrow> d < 10 \<Longrightarrow>
   parse_digits acc (xs @ [digit_char d]) = map_option (\<lambda>v. 10 * v + d) (parse_digits acc xs)"
proof (induction xs arbitrary: acc)
  case Nil
  then show ?case by (simp add: digit_val_digit_char)
next
  case (Cons x xs)
  then obtain dx where "dx < 10" "x = digit_char dx" by auto
  with Cons show ?case by (simp add: digit_val_digit_char)
qed

lemma parse_digits_str_of_nat: "parse_digits 0 (str_of_nat n) = Some n"
proof (induction n rule: str_of_nat.induct)
  case (1 n)
  show ?case
  proof (cases "n < 10")
    case True
    then show ?thesis by (subst str_of_nat.simps) (simp add: digit_val_digit_char)
  next
    case False
    with 1 have ih: "parse_digits 0 (str_of_nat (n div 10)) = Some (n div 10)" by simp
    have "parse_digits 0 (str_of_nat (n div 10) @ [digit_char (n mod 10)])
        = map_option (\<lambda>v. 10 * v + n mod 10) (parse_digits 0 (str_of_nat (n div 10)))"
      by (rule parse_digits_snoc) (simp_all add: str_of_nat_digits)
    with ih False show ?thesis by (subst str_of_nat.simps) simp
  qed
qed

lemma strip_no_space_ends:
  "s \<noteq> [] \<Longrightarrow> \<not> is_space (hd s) \<Longrightarrow> \<not> is_space (last s) \<Longrightarrow> strip s = s"
proof -
  assume s: "s \<noteq> []" and h: "\<not> is_space (hd s)" and l: "\<not> is_space (last s)"
  from s h have 1: "dropWhile is_space s = s" by (cases s) simp_all
  from s l have "dropWhile is_space (rev s) = rev s"
    by (cases "rev s") (simp_all add: last_rev[symmetric] hd_rev)
  with 1 show ?thesis by (simp add: strip_def)
qed

lemma str_of_nat_ends:
  "\<not> is_space (hd (str_of_nat n)) \<and> \<not> is_space (last (str_of_nat n)) \<and>
   digit_val (hd (str_of_nat n)) \<noteq> None"
proof -
  have "hd (str_of_nat n) \<in> set (str_of_nat n)" "last (str_of_nat n) \<in> set (str_of_nat n)"
    using str_of_nat_not_Nil by simp_all
  with str_of_nat_digits[of n] show ?thesis
    by (metis digit_char_not_space digit_val_digit_char option.distinct(1))
qed

lemma int_of_str_str_of_nat: "int_of_str (str_of_nat n) = Inr (int n)"
proof -
  obtain c cs where cs: "str_of_nat n = c # cs"
    using str_of_nat_not_Nil[of n] by (cases "str_of_nat n") auto
  have st: "strip (str_of_nat n) = str_of_nat n"
    using str_of_nat_ends[of n] str_of_nat_not_Nil[of n] by (simp add: strip_no_space_ends)
  have dv: "digit_val c \<noteq> None" using str_of_nat_ends[of n] cs by simp
  then have sign: "c \<noteq> CHR ''-''" "c \<noteq> CHR ''+''"
    by (auto simp: digit_val_def Let_def)
  have pd: "parse_digits 0 (c # cs) = Some n" using parse_digits_str_of_nat[of n] cs by simp
  show ?thesis
    unfolding int_of_str_def st
    using dv sign pd by (simp add: cs starts_with_def Let_def)
qed

lemma int_of_str_str_of_int: "int_of_str (str_of_int i) = Inr i"
proof (cases "i < 0")
  case False
  then show ?thesis by (simp add: str_of_int_def int_of_str_str_of_nat)
next
  case True
  let ?n = "nat (- i)"
  obtain c cs where cs: "str_of_nat ?n = c # cs"
    using str_of_nat_not_Nil[of ?n] by (cases "str_of_nat ?n") auto
  have "\<not> is_space CHR ''-''" by (simp add: is_space_def)
  then have "strip (CHR ''-'' # str_of_nat ?n) = CHR ''-'' # str_of_nat ?n"
    using str_of_nat_ends[of ?n] str_of_nat_not_Nil[of ?n] by (simp add: strip_no_space_ends)
  then have st: "strip (CHR ''-'' # c # cs) = CHR ''-'' # c # cs" by (simp add: cs)
  have dv: "digit_val c \<noteq> None" using str_of_nat_ends[of ?n] cs by simp
  have pd: "parse_digits 0 (c # cs) = Some ?n" using parse_digits_str_of_nat[of ?n] cs by simp
  show ?thesis
    unfolding int_of_str_def str_of_int_def
    using True dv pd
    by (simp add: st cs starts_with_def Let_def del: parse_digits.simps)
qed

lemma as_int_values_of_dict: "as_int_values (map (\<lambda>(k, v). (k, JInt v)) d) = Some d"
  by (induction d) auto

lemma int_keys_loop_of_dict:
  "int_keys_loop acc (map (\<lambda>(k, v). (str_of_int k, JStr v)) d) =
     Inr (foldl (\<lambda>d (k, v). dict_set d k v) acc d)"
  by (induction d arbitrary: acc) (auto simp: int_of_str_str_of_int)

lemma int_keys_loop_distinct:
  "distinct (map fst d) \<Longrightarrow>
   int_keys_loop [] (map (\<lambda>(k, v). (str_of_int k, JStr v)) d) = Inr d"
  using foldl_dict_set_distinct[of "[]" d] by (simp add: int_keys_loop_of_dict)

lemma id_to_symbol_create_symbols:
  "id_to_symbol (create_symbols s) = enumerate_py (symbols s @ map snd extra_tokens)"
proof -
  have "distinct (map fst (enumerate_py (symbols s @ map snd extra_tokens)))"
    by (simp add: enumerate_py_def distinct_map)
  then show ?thesis
    by (simp add: create_symbols_def Let_def dict_of_pairs_distinct)
qed

lemma distinct_keys_id_to_symbol: "distinct (map fst (id_to_symbol (create_symbols s)))"
  by (simp add: id_to_symbol_create_symbols enumerate_py_def distinct_map)

lemma post_init_saves:
  assumes "post_init fs self = Inr (fs', st)" and "\<not> load_mapper self" and "save_mapper self"
  shows "private_save_mapper fs st = Inr fs' \<and> root_dir st = root_dir self \<and>
         (\<exists>s. st = create_symbols s)"
proof -
  from assms have ne: "symbols self \<noteq> []"
    by (auto simp: post_init_def split: if_splits)
  from assms ne obtain s1 s2 where s1: "create_items fs self = Inr s1"
    and s2: "create_speaker_map s1 = Inr s2"
    and rest: "(let s3 = s2\<lparr>reverse_speaker :=
                    Some (dict_of_pairs (map (\<lambda>(k, v). (v, k)) (speakers_map s2)))\<rparr>;
                  s4 = create_symbols s3
              in if save_mapper s4 then
                   (case private_save_mapper fs s4 of
                      Inl e \<Rightarrow> Inl e
                    | Inr fs' \<Rightarrow> Inr (fs', s4))
                 else Inr (fs, s4)) = Inr (fs', st)"
    by (auto simp: post_init_def split: if_splits sum.splits)
  from s1 obtain its where its: "s1 = self\<lparr>items := its\<rparr>"
    by (auto simp: create_items_def split: sum.splits dest: items_loop_fields)
  from s2 obtain sm where sm: "s2 = s1\<lparr>speakers_map := sm\<rparr>"
    by (auto simp: create_speaker_map_def split: sum.splits)
  let ?s4 = "create_symbols (s2\<lparr>reverse_speaker :=
                    Some (dict_of_pairs (map (\<lambda>(k, v). (v, k)) (speakers_map s2)))\<rparr>)"
  have sv: "save_mapper ?s4" and rd: "root_dir ?s4 = root_dir self"
    using assms(3) by (simp_all add: create_symbols_def Let_def its sm)
  from rest sv have "private_save_mapper fs ?s4 = Inr fs'" and "st = ?s4"
    by (auto simp: Let_def split: sum.splits)
  with rd show ?thesis by auto
qed

lemma mapper_round_trip:
  assumes "post_init fs first = Inr (fs', st)"
    and "\<not> load_mapper first" and "save_mapper first"
    and "root_dir first \<noteq> []"
    and "load_mapper second" and "root_dir second = root_dir first"
  shows "post_init fs' second =
     Inr (fs', second\<lparr>speakers_map := speakers_map st, symbol_to_id := symbol_to_id st,
                       id_to_symbol := id_to_symbol st\<rparr>)"
proof -
  let ?r = "root_dir first"
  from post_init_saves[OF assms(1-3)] obtain s where
    sv: "private_save_mapper fs st = Inr fs'" and rd: "root_dir st = ?r"
    and cs: "st = create_symbols s" by blast
  let ?f = "\<lparr>content = json_dumps (full_mapper st), parsed = Some (full_mapper st)\<rparr>"
  from sv rd have fs': "fs' = fs\<lparr>files := (files fs)(resolve (cwd fs) (?r @ ''/mapper.json'') \<mapsto> ?f)\<rparr>"
    by (simp add: private_save_mapper_def json_dump_def open_write_def names_file_save)
  have "open_read fs' (path_join ?r ''mapper.json'') = Inr ?f"
    by (simp add: open_read_def names_file_load fs' resolve_save_load[OF assms(4)])
  then have ld: "json_load fs' (path_join (root_dir second) ''mapper.json'') = Inr (full_mapper st)"
    by (simp add: json_load_def assms(6))
  have sm: "json_getitem (full_mapper st) ''speakers_map'' =
      Inr (JObj (map (\<lambda>(k, v). (k, JInt v)) (speakers_map st)))"
    and s2i: "json_getitem (full_mapper st) ''symbol_to_id'' =
      Inr (JObj (map (\<lambda>(k, v). (k, JInt v)) (symbol_to_id st)))"
    and i2s: "json_getitem (full_mapper st) ''id_to_symbol'' =
      Inr (JObj (map (\<lambda>(k, v). (str_of_int k, JStr v)) (id_to_symbol st)))"
    by (simp_all add: json_getitem_def full_mapper_def dict_get_def)
  have ikl: "int_keys_loop [] (map (\<lambda>(k, v). (str_of_int k, JStr v)) (id_to_symbol st)) =
      Inr (id_to_symbol st)"
    by (rule int_keys_loop_distinct) (simp add: cs distinct_keys_id_to_symbol)
  have "private_load_mapper fs' second =
      Inr (second\<lparr>speakers_map := speakers_map st, symbol_to_id := symbol_to_id st,
                  id_to_symbol := id_to_symbol st\<rparr>)"
    by (simp add: private_load_mapper_def ld sm s2i i2s as_int_dict_def as_int_values_of_dict
        json_items_def ikl)
  then show ?thesis using assms(5) by (simp add: post_init_def)
qed

text \<open>
  Claim C5 (the code departs from it). \<^verbatim>\<open>__save_mapper\<close> writes to
  \<^verbatim>\<open>f"{root_dir}/mapper.json"\<close> and \<^verbatim>\<open>__load_mapper\<close> reads
  \<^verbatim>\<open>os.path.join(root_dir, "mapper.json")\<close>. With \<^verbatim>\<open>root_dir=""\<close> and the working directory
  \<^verbatim>\<open>/home\<close> the first construction succeeds and writes \<^verbatim>\<open>/mapper.json\<close>, and the second,
  from the same \<open>root_dir\<close>, looks for \<^verbatim>\<open>/home/mapper.json\<close> and raises \<open>OSError\<close>. With
  \<^verbatim>\<open>root_dir="/data"\<close> both paths are the same file and the second construction has the
  three mappings of the first, and no items; \<open>mapper_round_trip\<close> above shows this for
  every \<open>root_dir\<close> that is not empty.
\<close>

theorem reload_with_empty_root_dir_raises:
  "map_sum id snd (post_init relative_fs ((new_instance '''' [''a''])\<lparr>save_mapper := True\<rparr>)) =
     Inr \<lparr>root_dir = '''', symbols = [''a'', ''[UNK]'', ''[PAD]'', ''[EOS]'', ''[BOS]''],
          speakers_map = [(''spk1'', 0)], train_f_name = ''train.txt'', delimiter = ''|'',
          f_extension = ''.wav'', save_mapper = True, load_mapper = False,
          items = [[''hello world'', ''wav001.wav'', ''spk1'']],
          symbol_to_id = [(''a'', 0), (''[UNK]'', 1), (''[PAD]'', 2), (''[EOS]'', 3), (''[BOS]'', 4)],
          id_to_symbol = [(0, ''a''), (1, ''[UNK]''), (2, ''[PAD]''), (3, ''[EOS]''), (4, ''[BOS]'')],
          reverse_speaker = Some [(0, ''spk1'')]\<rparr> \<and>
   resolve (cwd relative_fs) ('''' @ ''/mapper.json'') = [''mapper.json''] \<and>
   resolve (cwd relative_fs) (path_join '''' ''mapper.json'') = [''home'', ''mapper.json''] \<and>
   construct_then_reload relative_fs
     ((new_instance '''' [''a''])\<lparr>save_mapper := True\<rparr>)
     ((new_instance '''' [])\<lparr>load_mapper := True\<rparr>) = Some (Inl OSError) \<and>
   construct_then_reload (manifest_fs example_line)
     ((new_instance ''/data'' [''a''])\<lparr>save_mapper := True\<rparr>)
     ((new_instance ''/data'' [])\<lparr>load_mapper := True\<rparr>) =
     Some (Inr ((new_instance ''/data'' [])
       \<lparr>load_mapper := True,
        speakers_map := [(''spk1'', 0)],
        symbol_to_id := [(''a'', 0), (''[UNK]'', 1), (''[PAD]'', 2), (''[EOS]'', 3), (''[BOS]'', 4)],
        id_to_symbol := [(0, ''a''), (1, ''[UNK]''), (2, ''[PAD]''), (3, ''[EOS]''), (4, ''[BOS]'')]\<rparr>))"
  by code_simp

end
